theory Spec2Isabelle
  imports Complex_Main "HOL-Library.Sublist"
begin

section \<open>Statuses and the transition classifiers\<close>

text \<open>
  The four heartbeat statuses.  In the JavaScript source they are the numbers
  \<open>DOWN = 0\<close>, \<open>UP = 1\<close>, \<open>PENDING = 2\<close>, \<open>MAINTENANCE = 3\<close>, imported
  from \<open>src/util\<close>; every use in \<open>server/model/monitor.js\<close> compares them with
  \<open>===\<close>, so a datatype with four constructors is the faithful carrier.
\<close>

datatype status = DOWN | UP | PENDING | MAINTENANCE

text \<open>
  Modelled from the spec: the numeric codes of the statuses (section 3 of the
  specification), which the SQL of \<open>calcUptime\<close> uses literally
  (\<open>status = 1 OR status = 3\<close>); the constants themselves are declared in
  \<open>src/util\<close>, which is not among the sources.
\<close>

fun status_code :: "status \<Rightarrow> nat" where
  "status_code DOWN = 0"
| "status_code UP = 1"
| "status_code PENDING = 2"
| "status_code MAINTENANCE = 3"

text \<open>
  Modelled from the spec: \<open>flipStatus\<close> of \<open>src/util\<close> (not among the sources).
  The specification says that upside-down mode flips UP and DOWN only and that
  MAINTENANCE and PENDING are never inverted.
\<close>

fun flipStatus :: "status \<Rightarrow> status" where
  "flipStatus UP = DOWN"
| "flipStatus DOWN = UP"
| "flipStatus s = s"

text \<open>
  \<open>Monitor.isImportantBeat\<close> and \<open>Monitor.isImportantForNotification\<close>.  The
  previous status is \<open>previousBeat?.status\<close>, which is \<open>undefined\<close> when there is
  no previous beat: an \<open>option\<close>.  The disjuncts are in the order of the source.
\<close>

definition isImportantBeat :: "bool \<Rightarrow> status option \<Rightarrow> status \<Rightarrow> bool" where
  "isImportantBeat isFirstBeat previousBeatStatus currentBeatStatus =
    (isFirstBeat \<or>
     (previousBeatStatus = Some DOWN \<and> currentBeatStatus = MAINTENANCE) \<or>
     (previousBeatStatus = Some UP \<and> currentBeatStatus = MAINTENANCE) \<or>
     (previousBeatStatus = Some MAINTENANCE \<and> currentBeatStatus = DOWN) \<or>
     (previousBeatStatus = Some MAINTENANCE \<and> currentBeatStatus = UP) \<or>
     (previousBeatStatus = Some UP \<and> currentBeatStatus = DOWN) \<or>
     (previousBeatStatus = Some DOWN \<and> currentBeatStatus = UP) \<or>
     (previousBeatStatus = Some PENDING \<and> currentBeatStatus = DOWN))"

definition isImportantForNotification :: "bool \<Rightarrow> status option \<Rightarrow> status \<Rightarrow> bool" where
  "isImportantForNotification isFirstBeat previousBeatStatus currentBeatStatus =
    (isFirstBeat \<or>
     (previousBeatStatus = Some MAINTENANCE \<and> currentBeatStatus = DOWN) \<or>
     (previousBeatStatus = Some UP \<and> currentBeatStatus = DOWN) \<or>
     (previousBeatStatus = Some DOWN \<and> currentBeatStatus = UP) \<or>
     (previousBeatStatus = Some PENDING \<and> currentBeatStatus = DOWN))"

section \<open>Heartbeats, monitors and notification providers\<close>

text \<open>
  A heartbeat bean, with the fields the runtime reads and writes.  Times are
  milliseconds since the epoch (\<open>dayjs.utc().valueOf()\<close>); \<open>duration\<close> is in
  seconds and signed, as \<open>dayjs(...).diff(..., "second")\<close> returns it;
  \<open>downCount\<close> only ever starts at 0 and is incremented, so it is a natural
  number.  \<open>ping\<close> is \<open>None\<close> where the source leaves it unset.
\<close>

record heartbeat =
  hb_monitor_id :: nat
  hb_time :: int
  hb_status :: status
  hb_msg :: string
  hb_ping :: "int option"
  hb_duration :: int
  hb_important :: bool
  hb_downCount :: nat

text \<open>
  The monitor bean.  \<open>timeout\<close> is \<open>None\<close> when the column is null;
  \<open>interval\<close>, \<open>retryInterval\<close>, \<open>resendInterval\<close> and \<open>maxretries\<close> are the
  integer columns.  The boolean columns are read through \<open>Boolean(...)\<close> in the
  source (\<open>isUpsideDown\<close>, \<open>getIgnoreTls\<close>, \<open>isEnabledExpiryNotification\<close>).
\<close>

record monitor =
  mon_id :: nat
  mon_name :: string
  mon_url :: string
  mon_type :: string
  mon_interval :: int
  mon_retryInterval :: int
  mon_resendInterval :: int
  mon_maxretries :: int
  mon_timeout :: "real option"
  mon_upsideDown :: bool
  mon_ignoreTls :: bool
  mon_expiryNotification :: bool
  mon_isStop :: bool

definition isUpsideDown :: "monitor \<Rightarrow> bool" where
  "isUpsideDown m = mon_upsideDown m"

definition getIgnoreTls :: "monitor \<Rightarrow> bool" where
  "getIgnoreTls m = mon_ignoreTls m"

definition isEnabledExpiryNotification :: "monitor \<Rightarrow> bool" where
  "isEnabledExpiryNotification m = mon_expiryNotification m"

text \<open>A row of the \<open>notification\<close> table: a configured provider.\<close>

record notification =
  ntf_id :: nat
  ntf_name :: string

section \<open>The notification path\<close>

text \<open>
  What \<open>Monitor.sendNotification\<close> does to the outside world, in order: one call
  of \<open>executePreCommand(bean.status, monitorJSON)\<close>, then one call of
  \<open>Notification.send\<close> per provider with the message text and the heartbeat
  JSON.  A provider that throws is logged and the loop goes on, so the calls
  made do not depend on the providers' outcomes.
\<close>

datatype effect =
  PreCommand status
| Send notification string heartbeat

text \<open>The two status texts are emoji followed by a word; the emoji are given as their UTF-8 bytes.\<close>

definition up_text :: string where
  "up_text = [CHR 0xE2, CHR 0x9C, CHR 0x85] @ '' Up''"

definition down_text :: string where
  "down_text = [CHR 0xF0, CHR 0x9F, CHR 0x94, CHR 0xB4] @ '' Down''"

definition heartbeatJSON :: "heartbeat \<Rightarrow> heartbeat" where
  "heartbeatJSON bean = (if hb_msg bean = [] then bean\<lparr>hb_msg := ''N/A''\<rparr> else bean)"

definition notification_msg :: "monitor \<Rightarrow> heartbeat \<Rightarrow> string" where
  "notification_msg m bean =
    ''['' @ mon_name m @ ''] ['' @ (if hb_status bean = UP then up_text else down_text) @ ''] ''
      @ hb_msg bean"

definition sendNotification :: "bool \<Rightarrow> monitor \<Rightarrow> notification list \<Rightarrow> heartbeat \<Rightarrow> effect list" where
  "sendNotification isFirstBeat m notificationList bean =
    (if \<not> isFirstBeat \<or> hb_status bean = DOWN then
       PreCommand (hb_status bean) #
       map (\<lambda>n. Send n (notification_msg m bean) (heartbeatJSON bean)) notificationList
     else [])"

section \<open>The beat loop\<close>

text \<open>
  An exception as the \<open>catch\<close> block of \<open>beat\<close> reads it: either its \<open>name\<close> is
  \<open>CanceledError\<close>, or it is any other error; both carry a \<open>message\<close>.
\<close>

datatype error = CanceledError string | Error string

text \<open>
  What a probe driver does to the bean.  The drivers (HTTP client, TCP, DNS,
  databases and so on) are external; \<open>beat\<close> only sees that the branch either
  runs to its end, having written \<open>bean.msg\<close>, perhaps \<open>bean.status\<close> and
  \<open>bean.ping\<close>, or throws, perhaps after having written \<open>bean.status\<close> (the
  content check of the \<open>http\<close> branch sets DOWN and then throws).  A status of
  \<open>None\<close> means the branch left \<open>bean.status\<close> as it was.
\<close>

datatype probe_outcome =
  Finished "status option" string "int option"
| Failed "status option" error

text \<open>
  A child of a group monitor as the group branch reads it: its \<open>active\<close> flag
  and the status of the row \<open>Monitor.getPreviousHeartbeat(child.id)\<close> returns,
  \<open>None\<close> when there is no such row.
\<close>

record child =
  child_active :: bool
  child_lastBeat :: "status option"

text \<open>
  Everything one tick reads from outside the runtime: the clock (one reading
  per tick, in milliseconds), the process-wide demo flag, the latest heartbeat
  row of the monitor in the repository, whether the monitor is under
  maintenance, the children of a group with their last statuses, the outcome
  of the probe driver, the providers configured for the monitor, and the text
  JavaScript renders \<open>this.timeout\<close> as inside the timeout message.
\<close>

record tick_env =
  env_now :: int
  env_demoMode :: bool
  env_latest :: "heartbeat option"
  env_underMaintenance :: bool
  env_children :: "child list"
  env_probe :: probe_outcome
  env_notificationList :: "notification list"
  env_timeoutText :: string

text \<open>The two variables the closure \<open>beat\<close> keeps between ticks.\<close>

record runtime =
  previousBeat :: "heartbeat option"
  retries :: int

definition initial_runtime :: runtime where
  "initial_runtime = \<lparr>previousBeat = None, retries = 0\<rparr>"

text \<open>
  The runtime patch of the timeout at the start of a tick:
  \<open>if (!this.timeout || this.timeout <= 0) this.timeout = this.interval * 1000 * 0.8\<close>.
  JavaScript numbers are taken as reals.  \<open>!this.timeout\<close> holds for null and
  for 0; \<open>null <= 0\<close> holds as well.
\<close>

definition timeout_unset :: "real option \<Rightarrow> bool" where
  "timeout_unset t = (case t of None \<Rightarrow> True | Some x \<Rightarrow> x = 0)"

definition timeout_nonpositive :: "real option \<Rightarrow> bool" where
  "timeout_nonpositive t = (case t of None \<Rightarrow> True | Some x \<Rightarrow> x \<le> 0)"

definition patch_timeout :: "monitor \<Rightarrow> monitor" where
  "patch_timeout m =
    (if timeout_unset (mon_timeout m) \<or> timeout_nonpositive (mon_timeout m)
     then m\<lparr>mon_timeout := Some (real_of_int (mon_interval m) * 1000 * 0.8)\<rparr>
     else m)"

text \<open>
  \<open>dayjs(a).diff(dayjs(b), "second")\<close>: the difference in milliseconds divided
  by 1000 and truncated towards zero.
\<close>

definition diff_seconds :: "int \<Rightarrow> int \<Rightarrow> int" where
  "diff_seconds a b = (if a - b < 0 then - ((b - a) div 1000) else (a - b) div 1000)"

text \<open>How the \<open>try\<close> block of a tick ends.\<close>

datatype try_result =
  Normal heartbeat
| Thrown error heartbeat
| EarlyReturn int

text \<open>
  The group branch: one step of the loop over the children, and the branch as
  a whole.
\<close>

definition group_child_step :: "status \<Rightarrow> child \<Rightarrow> status" where
  "group_child_step st c =
    (if \<not> child_active c then st
     else (case child_lastBeat c of
             None \<Rightarrow> PENDING
           | Some ls \<Rightarrow>
               if st = UP \<and> (ls = PENDING \<or> ls = DOWN) then ls
               else if st = PENDING \<and> ls = DOWN then ls
               else st))"

definition group_branch :: "child list \<Rightarrow> heartbeat \<Rightarrow> heartbeat" where
  "group_branch children bean =
    (if length children > 0 then
       (let st = foldl group_child_step UP children
        in bean\<lparr>hb_status := st,
                hb_msg := (if st \<noteq> UP then ''Child inaccessible''
                           else ''All children up and running'')\<rparr>)
     else bean\<lparr>hb_status := PENDING, hb_msg := ''Group empty''\<rparr>)"

text \<open>
  The push branch.  \<open>beatInterval\<close> is in seconds, the clock and the heartbeat
  times in milliseconds.
\<close>

definition push_branch :: "monitor \<Rightarrow> heartbeat option \<Rightarrow> int \<Rightarrow> int \<Rightarrow> heartbeat \<Rightarrow> try_result" where
  "push_branch m prevBeat now beatInterval bean =
    (let bufferTime = 1000 in
     case prevBeat of
       Some pb \<Rightarrow>
         (let msSinceLastBeat = now - hb_time pb in
          if hb_status pb \<noteq> (if isUpsideDown m then DOWN else UP)
             \<or> msSinceLastBeat > beatInterval * 1000 + bufferTime
          then Thrown (Error ''No heartbeat in the time window'') bean
          else (let timeout = beatInterval * 1000 - msSinceLastBeat
                in EarlyReturn (if timeout < 0 then bufferTime else timeout + bufferTime)))
     | None \<Rightarrow> Thrown (Error ''No heartbeat in the time window'') bean)"

text \<open>The branches of every other type, seen through the outcome of their driver.\<close>

definition probe_branch :: "probe_outcome \<Rightarrow> heartbeat \<Rightarrow> try_result" where
  "probe_branch outcome bean =
    (case outcome of
       Finished st msg ping \<Rightarrow>
         Normal (bean\<lparr>hb_status := (case st of None \<Rightarrow> hb_status bean | Some s \<Rightarrow> s),
                       hb_msg := msg, hb_ping := ping\<rparr>)
     | Failed st err \<Rightarrow>
         Thrown err (bean\<lparr>hb_status := (case st of None \<Rightarrow> hb_status bean | Some s \<Rightarrow> s)\<rparr>))"

text \<open>The chain of branches inside \<open>try\<close>, up to the post-probe flip.\<close>

definition dispatch :: "monitor \<Rightarrow> heartbeat option \<Rightarrow> int \<Rightarrow> tick_env \<Rightarrow> heartbeat \<Rightarrow> try_result" where
  "dispatch m prevBeat beatInterval env bean =
    (if env_underMaintenance env then
       Normal (bean\<lparr>hb_msg := ''Monitor under maintenance'', hb_status := MAINTENANCE\<rparr>)
     else if mon_type m = ''group'' then Normal (group_branch (env_children env) bean)
     else if mon_type m = ''push'' then push_branch m prevBeat (env_now env) beatInterval bean
     else probe_branch (env_probe env) bean)"

text \<open>
  The whole \<open>try\<close> block: the dispatch, then the flip of upside-down mode, which
  throws when it lands on DOWN.
\<close>

definition try_block :: "monitor \<Rightarrow> heartbeat option \<Rightarrow> int \<Rightarrow> tick_env \<Rightarrow> heartbeat \<Rightarrow> try_result" where
  "try_block m prevBeat beatInterval env bean =
    (case dispatch m prevBeat beatInterval env bean of
       Normal b \<Rightarrow>
         if isUpsideDown m then
           (let b' = b\<lparr>hb_status := flipStatus (hb_status b)\<rparr>
            in if hb_status b' = DOWN then Thrown (Error ''Flip UP to DOWN'') b' else Normal b')
         else Normal b
     | Thrown err b \<Rightarrow> Thrown err b
     | EarlyReturn t \<Rightarrow> EarlyReturn t)"

text \<open>
  The \<open>catch\<close> block: the message of the error replaces \<open>bean.msg\<close>, then the
  retry accounting.  It returns the bean and the new value of \<open>retries\<close>.
\<close>

definition catch_block :: "monitor \<Rightarrow> tick_env \<Rightarrow> int \<Rightarrow> error \<Rightarrow> heartbeat \<Rightarrow> heartbeat \<times> int" where
  "catch_block m env rtr err bean =
    (let b = bean\<lparr>hb_msg := (case err of
                 CanceledError _ \<Rightarrow> ''timeout by AbortSignal ('' @ env_timeoutText env @ ''s)''
               | Error msg \<Rightarrow> msg)\<rparr>
     in if isUpsideDown m \<and> hb_status b = UP then (b, 0)
        else if mon_maxretries m > 0 \<and> rtr < mon_maxretries m then (b\<lparr>hb_status := PENDING\<rparr>, rtr + 1)
        else (b, rtr))"

text \<open>
  The importance and resend block.  It returns the bean as it will be stored
  and, when \<open>Monitor.sendNotification\<close> was called, the bean as it was passed to
  that call (the call comes before the reset of \<open>downCount\<close>).
\<close>

definition importance_block :: "monitor \<Rightarrow> bool \<Rightarrow> status option \<Rightarrow> heartbeat \<Rightarrow> heartbeat \<times> heartbeat option" where
  "importance_block m isFirstBeat prevStatus bean =
    (if isImportantBeat isFirstBeat prevStatus (hb_status bean) then
       (let b = bean\<lparr>hb_important := True\<rparr>
        in (b\<lparr>hb_downCount := 0\<rparr>,
            if isImportantForNotification isFirstBeat prevStatus (hb_status b) then Some b else None))
     else
       (let b = bean\<lparr>hb_important := False\<rparr>
        in if hb_status b = DOWN \<and> mon_resendInterval m > 0 then
             (let b' = b\<lparr>hb_downCount := hb_downCount b + 1\<rparr>
              in if int (hb_downCount b') \<ge> mon_resendInterval m
                 then (b'\<lparr>hb_downCount := 0\<rparr>, Some b')
                 else (b', None))
           else (b, None)))"

text \<open>
  What one tick leaves behind: the monitor (its timeout may have been patched),
  the closure variables, the heartbeat stored (none when the push branch
  returns early), the bean passed to \<open>Monitor.sendNotification\<close> if it was
  called, the effects of that call, and the delay of the next tick in
  milliseconds (none when the monitor is stopped).
\<close>

record tick_result =
  res_monitor :: monitor
  res_runtime :: runtime
  res_stored :: "heartbeat option"
  res_dispatched :: "heartbeat option"
  res_effects :: "effect list"
  res_next :: "int option"

text \<open>
  The start of a tick: the beat interval in seconds (\<open>!beatInterval\<close> holds for
  0), the previous beat (the closure variable, reloaded from the repository
  when it is null or the monitor is of type push), and the new bean.
\<close>

definition beat_interval :: "monitor \<Rightarrow> tick_env \<Rightarrow> int" where
  "beat_interval m env =
    (let beatInterval = (if mon_interval m = 0 then 1 else mon_interval m)
     in if env_demoMode env \<and> beatInterval < 20 then 20 else beatInterval)"

definition load_previous :: "monitor \<Rightarrow> runtime \<Rightarrow> tick_env \<Rightarrow> heartbeat option" where
  "load_previous m rt env =
    (if previousBeat rt = None \<or> mon_type m = ''push'' then env_latest env else previousBeat rt)"

definition new_bean :: "monitor \<Rightarrow> heartbeat option \<Rightarrow> tick_env \<Rightarrow> heartbeat" where
  "new_bean m prevBeat env =
    \<lparr>hb_monitor_id = mon_id m,
     hb_time = env_now env,
     hb_status = (if isUpsideDown m then flipStatus DOWN else DOWN),
     hb_msg = [],
     hb_ping = None,
     hb_duration = (case prevBeat of
                      Some pb \<Rightarrow> diff_seconds (env_now env) (hb_time pb)
                    | None \<Rightarrow> 0),
     hb_important = False,
     hb_downCount = (case prevBeat of Some pb \<Rightarrow> hb_downCount pb | None \<Rightarrow> 0)\<rparr>"

text \<open>
  The rest of a tick once \<open>try\<close> and \<open>catch\<close> are over, from the bean and the
  value of \<open>retries\<close> they left: importance and resend, the retry interval after
  a PENDING beat, the store, and the next timer.
\<close>

definition finish_tick :: "monitor \<Rightarrow> tick_env \<Rightarrow> heartbeat option \<Rightarrow> heartbeat \<Rightarrow> int \<Rightarrow> tick_result" where
  "finish_tick m env prevBeat b1 rtr =
    (let isFirstBeat = (prevBeat = None);
         stored = fst (importance_block m isFirstBeat (map_option hb_status prevBeat) b1);
         sent = snd (importance_block m isFirstBeat (map_option hb_status prevBeat) b1);
         beatInterval = (if hb_status stored = PENDING \<and> mon_retryInterval m > 0
                         then mon_retryInterval m else beat_interval m env)
     in \<lparr>res_monitor = m,
         res_runtime = \<lparr>previousBeat = Some stored, retries = rtr\<rparr>,
         res_stored = Some stored,
         res_dispatched = sent,
         res_effects = (case sent of
                          None \<Rightarrow> []
                        | Some b \<Rightarrow> sendNotification isFirstBeat m (env_notificationList env) b),
         res_next = (if \<not> mon_isStop m then Some (beatInterval * 1000) else None)\<rparr>)"

text \<open>
  The push branch returns from \<open>beat\<close> before anything is stored: \<open>retries\<close> is
  reset and the timer is set, whether or not the monitor is stopped.
\<close>

definition early_return :: "monitor \<Rightarrow> heartbeat option \<Rightarrow> int \<Rightarrow> tick_result" where
  "early_return m prevBeat t =
    \<lparr>res_monitor = m,
     res_runtime = \<lparr>previousBeat = prevBeat, retries = 0\<rparr>,
     res_stored = None, res_dispatched = None, res_effects = [],
     res_next = Some t\<rparr>"

definition beat :: "monitor \<Rightarrow> runtime \<Rightarrow> tick_env \<Rightarrow> tick_result" where
  "beat m0 rt env =
    (let prevBeat = load_previous m0 rt env;
         bean = new_bean m0 prevBeat env;
         m = patch_timeout m0
     in case try_block m prevBeat (beat_interval m0 env) env bean of
          Normal b \<Rightarrow> finish_tick m env prevBeat b 0
        | Thrown err b \<Rightarrow>
            finish_tick m env prevBeat
              (fst (catch_block m env (retries rt) err b))
              (snd (catch_block m env (retries rt) err b))
        | EarlyReturn t \<Rightarrow> early_return m prevBeat t)"

text \<open>
  A run of the runtime: the ticks one after the other, each starting from the
  monitor and the closure variables the tick before left.
\<close>

fun run :: "monitor \<Rightarrow> runtime \<Rightarrow> tick_env list \<Rightarrow> tick_result list" where
  "run m rt [] = []"
| "run m rt (env # envs) = (let r = beat m rt env in r # run (res_monitor r) (res_runtime r) envs)"

section \<open>The TLS tracker\<close>

text \<open>
  One certificate of a captured chain, and the captured chain: the leaf first,
  then the certificates reached through \<open>issuerCertificate\<close>.  An empty chain
  stands for a result without \<open>certInfo\<close>.
\<close>

record cert_info =
  cert_subjectCN :: string
  cert_certType :: string
  cert_fingerprint256 :: string
  cert_daysRemaining :: int

record tls_info =
  tls_valid :: bool
  tls_certInfo :: "cert_info list"

text \<open>A row of \<open>notification_sent_history\<close>.\<close>

record sent_row =
  row_type :: string
  row_monitor_id :: nat
  row_days :: int

text \<open>
  The two tables the tracker works on: \<open>monitor_tls_info\<close>, one row per
  monitor, and \<open>notification_sent_history\<close>.
\<close>

record tls_store =
  store_tls :: "nat \<Rightarrow> tls_info option"
  store_history :: "sent_row list"

text \<open>How a template literal renders an integer.\<close>

definition digit :: "nat \<Rightarrow> char" where
  "digit d = ''0123456789'' ! d"

fun decimal :: "nat \<Rightarrow> string" where
  "decimal n = (if 10 \<le> n then decimal (n div 10) @ [digit (n mod 10)] else [digit n])"

definition render_number :: "int \<Rightarrow> string" where
  "render_number k = (if 0 \<le> k then decimal (nat k) else CHR ''-'' # decimal (nat (- k)))"

definition cert_text :: "monitor \<Rightarrow> string \<Rightarrow> string \<Rightarrow> int \<Rightarrow> string" where
  "cert_text m certType certCN daysRemaining =
    ''['' @ mon_name m @ ''][''  @ mon_url m @ ''] '' @ certType @ '' certificate '' @ certCN
      @ '' will be expired in '' @ render_number daysRemaining @ '' days''"

text \<open>
  \<open>sendCertNotificationByTargetDays\<close>.  It returns the history table and the
  calls of \<open>Notification.send\<close> it made, each tagged with the \<open>targetDays\<close> of
  the call it was made in.  \<open>delivers\<close> tells for each provider whether its
  \<open>send\<close> returns (rather than throws); the row is inserted when at least one
  did.
\<close>

type_synonym cert_send = "int \<times> notification \<times> string"

definition sent_already :: "monitor \<Rightarrow> int \<Rightarrow> sent_row \<Rightarrow> bool" where
  "sent_already m targetDays r =
    (row_type r = ''certificate'' \<and> row_monitor_id r = mon_id m \<and> row_days r \<le> targetDays)"

definition sendCertNotificationByTargetDays ::
  "monitor \<Rightarrow> (notification \<Rightarrow> bool) \<Rightarrow> string \<Rightarrow> string \<Rightarrow> int \<Rightarrow> int \<Rightarrow> notification list
    \<Rightarrow> sent_row list \<Rightarrow> sent_row list \<times> cert_send list" where
  "sendCertNotificationByTargetDays m delivers certCN certType daysRemaining targetDays
      notificationList history =
    (case find (sent_already m targetDays) history of
       Some row \<Rightarrow> (history, [])
     | None \<Rightarrow>
         (if list_ex delivers notificationList
          then history @ [\<lparr>row_type = ''certificate'', row_monitor_id = mon_id m,
                            row_days = targetDays\<rparr>]
          else history,
          map (\<lambda>n. (targetDays, n, cert_text m certType certCN daysRemaining)) notificationList))"

text \<open>
  The inner loop of \<open>checkCertExpiryNotifications\<close>, along the chain for one
  \<open>targetDays\<close>: it stops at a known root certificate, skips a certificate
  with more days left than the target, and calls
  \<open>sendCertNotificationByTargetDays\<close> for every other one.
\<close>

fun cert_chain_loop ::
  "monitor \<Rightarrow> (notification \<Rightarrow> bool) \<Rightarrow> string list \<Rightarrow> notification list \<Rightarrow> int
    \<Rightarrow> cert_info list \<Rightarrow> sent_row list \<times> cert_send list \<Rightarrow> sent_row list \<times> cert_send list" where
  "cert_chain_loop m delivers rootCertificates nl targetDays [] acc = acc"
| "cert_chain_loop m delivers rootCertificates nl targetDays (certInfo # issuers) acc =
    (if cert_fingerprint256 certInfo \<in> set rootCertificates then acc
     else if cert_daysRemaining certInfo > targetDays
       then cert_chain_loop m delivers rootCertificates nl targetDays issuers acc
     else cert_chain_loop m delivers rootCertificates nl targetDays issuers
            (fst (sendCertNotificationByTargetDays m delivers (cert_subjectCN certInfo)
                    (cert_certType certInfo) (cert_daysRemaining certInfo) targetDays nl (fst acc)),
             snd acc @
             snd (sendCertNotificationByTargetDays m delivers (cert_subjectCN certInfo)
                    (cert_certType certInfo) (cert_daysRemaining certInfo) targetDays nl (fst acc))))"

text \<open>
  \<open>checkCertExpiryNotifications\<close>.  The setting \<open>tlsExpiryNotifyDays\<close> is \<open>None\<close>
  when it is null or not an array, and the default 7, 14, 21 is used then.
  \<open>daysRemaining\<close> of the leaf is tested for truthiness: 0 is false.
\<close>

definition checkCertExpiryNotifications ::
  "monitor \<Rightarrow> (notification \<Rightarrow> bool) \<Rightarrow> string list \<Rightarrow> int list option \<Rightarrow> notification list
    \<Rightarrow> tls_info \<Rightarrow> sent_row list \<Rightarrow> sent_row list \<times> cert_send list" where
  "checkCertExpiryNotifications m delivers rootCertificates setting notificationList tlsInfoObject
      history =
    (case tls_certInfo tlsInfoObject of
       [] \<Rightarrow> (history, [])
     | leaf # issuers \<Rightarrow>
         if cert_daysRemaining leaf = 0 then (history, [])
         else if \<not> length notificationList > 0 then (history, [])
         else (let notifyDays = (case setting of None \<Rightarrow> [7, 14, 21] | Some days \<Rightarrow> days)
               in foldl (\<lambda>acc targetDays.
                           cert_chain_loop m delivers rootCertificates notificationList targetDays
                             (tls_certInfo tlsInfoObject) acc)
                    (history, []) notifyDays))"

text \<open>
  \<open>updateTlsInfo\<close>: the row of the monitor is replaced, and when the fingerprint
  of the leaf differs from the stored one the certificate rows of the monitor
  are deleted from the history.
\<close>

definition updateTlsInfo :: "monitor \<Rightarrow> tls_info \<Rightarrow> tls_store \<Rightarrow> tls_store" where
  "updateTlsInfo m checkCertificateResult st =
    (case store_tls st (mon_id m) of
       None \<Rightarrow> st\<lparr>store_tls := (store_tls st)(mon_id m \<mapsto> checkCertificateResult)\<rparr>
     | Some oldCertInfo \<Rightarrow>
         st\<lparr>store_tls := (store_tls st)(mon_id m \<mapsto> checkCertificateResult),
            store_history :=
              (if tls_certInfo oldCertInfo \<noteq> [] \<and> tls_certInfo checkCertificateResult \<noteq> []
                  \<and> cert_fingerprint256 (hd (tls_certInfo oldCertInfo))
                      \<noteq> cert_fingerprint256 (hd (tls_certInfo checkCertificateResult))
               then filter (\<lambda>r. \<not> (row_type r = ''certificate'' \<and> row_monitor_id r = mon_id m))
                      (store_history st)
               else store_history st)\<rparr>)"

text \<open>\<open>handleTlsInfo\<close>: what one TLS capture does to the tables, and the sends it makes.\<close>

definition handleTlsInfo ::
  "monitor \<Rightarrow> (notification \<Rightarrow> bool) \<Rightarrow> string list \<Rightarrow> int list option \<Rightarrow> notification list
    \<Rightarrow> tls_info \<Rightarrow> tls_store \<Rightarrow> tls_store \<times> cert_send list" where
  "handleTlsInfo m delivers rootCertificates setting notificationList tlsInfo st =
    (let st1 = updateTlsInfo m tlsInfo st
     in if \<not> getIgnoreTls m \<and> isEnabledExpiryNotification m then
          (st1\<lparr>store_history :=
                 fst (checkCertExpiryNotifications m delivers rootCertificates setting
                        notificationList tlsInfo (store_history st1))\<rparr>,
           snd (checkCertExpiryNotifications m delivers rootCertificates setting
                  notificationList tlsInfo (store_history st1)))
        else (st1, []))"

section \<open>The uptime aggregator\<close>

text \<open>
  \<open>calcUptime\<close> on a cache miss.  The heartbeat table is a list in insertion
  order.  \<open>startTime\<close> is the start of the window,
  \<open>duration\<close> hours before now, as \<open>R.isoDateTime\<close> formats it: cut to the whole
  second; it is kept in milliseconds here, like the heartbeat times.  The SQL
  measures
  \<open>(JULIANDAY(time) - JULIANDAY(startTime)) * 86400\<close>, the seconds from the
  start of the window to the heartbeat, as a real.  \<open>SUM\<close> over no value is
  NULL, which JavaScript reads as 0 in arithmetic and as not greater than 0.
\<close>

definition window_start :: "int \<Rightarrow> int \<Rightarrow> int" where
  "window_start now duration = (now - duration * 3600000) div 1000 * 1000"

text \<open>
  The rows of the window.  \<open>WHERE time > ?\<close> compares text: the \<open>time\<close> column
  holds \<open>YYYY-MM-DD HH:mm:ss.SSS\<close> and the bound is \<open>YYYY-MM-DD HH:mm:ss\<close>, a
  whole second.  A time in a later second is greater, one in an earlier second
  is smaller, and a time in the very second of the bound is the bound followed
  by its milliseconds, which is greater as text, \<open>.000\<close> included.  On
  instants in milliseconds the comparison is therefore \<open>time \<ge> startTime\<close>.
\<close>

definition in_window :: "int \<Rightarrow> nat \<Rightarrow> heartbeat list \<Rightarrow> heartbeat list" where
  "in_window startTime monitorID table =
    filter (\<lambda>h. hb_time h \<ge> startTime \<and> hb_monitor_id h = monitorID) table"

definition trimmed :: "int \<Rightarrow> heartbeat \<Rightarrow> real" where
  "trimmed startTime h =
    (if real_of_int (hb_time h - startTime) / 1000 < real_of_int (hb_duration h)
     then real_of_int (hb_time h - startTime) / 1000
     else real_of_int (hb_duration h))"

definition sql_sum :: "real list \<Rightarrow> real option" where
  "sql_sum xs = (if xs = [] then None else Some (sum_list xs))"

definition js_number :: "real option \<Rightarrow> real" where
  "js_number x = (case x of None \<Rightarrow> 0 | Some v \<Rightarrow> v)"

definition total_duration :: "int \<Rightarrow> nat \<Rightarrow> heartbeat list \<Rightarrow> real option" where
  "total_duration startTime monitorID table =
    sql_sum (map (trimmed startTime) (in_window startTime monitorID table))"

definition uptime_duration :: "int \<Rightarrow> nat \<Rightarrow> heartbeat list \<Rightarrow> real option" where
  "uptime_duration startTime monitorID table =
    sql_sum (map (trimmed startTime)
      (filter (\<lambda>h. status_code (hb_status h) = 1 \<or> status_code (hb_status h) = 3)
         (in_window startTime monitorID table)))"

text \<open>
  The status the second query yields: \<open>SELECT status FROM heartbeat WHERE monitor_id = ?\<close>
  has no \<open>ORDER BY\<close>, and \<open>getCell\<close> takes the first row.  The engine answers
  the query through the index on \<open>(monitor_id, time)\<close>, so the rows of the
  monitor come in ascending time, rows of equal time in insertion order: the
  first row is the earliest heartbeat of the monitor.
\<close>

fun earliest_row :: "heartbeat \<Rightarrow> heartbeat list \<Rightarrow> heartbeat" where
  "earliest_row h [] = h"
| "earliest_row h (x # xs) = earliest_row (if hb_time x < hb_time h then x else h) xs"

definition first_status :: "nat \<Rightarrow> heartbeat list \<Rightarrow> status option" where
  "first_status monitorID table =
    (case filter (\<lambda>h. hb_monitor_id h = monitorID) table of
       [] \<Rightarrow> None
     | h # hs \<Rightarrow> Some (hb_status (earliest_row h hs)))"

definition calcUptime :: "int \<Rightarrow> int \<Rightarrow> nat \<Rightarrow> heartbeat list \<Rightarrow> real" where
  "calcUptime now duration monitorID table =
    (let startTime = window_start now duration;
         totalDuration = total_duration startTime monitorID table;
         uptimeDuration = uptime_duration startTime monitorID table
     in if js_number totalDuration > 0 then
          (let uptime = js_number uptimeDuration / js_number totalDuration
           in if uptime < 0 then 0 else uptime)
        else if first_status monitorID table = Some UP then 1 else 0)"

section \<open>Vocabulary for stating the properties\<close>

text \<open>
  A plain monitor is one whose tick goes through a probe driver and is not
  inverted: neither a group nor a push monitor, and not upside-down.
\<close>

definition plain_monitor :: "monitor \<Rightarrow> bool" where
  "plain_monitor m = (mon_type m \<noteq> ''group'' \<and> mon_type m \<noteq> ''push'' \<and> \<not> mon_upsideDown m)"

text \<open>
  A probe fails when its driver throws, having left the status of the bean
  alone or set it to DOWN; it succeeds when its driver runs to the end having
  set the status to UP.
\<close>

definition probe_fails :: "probe_outcome \<Rightarrow> bool" where
  "probe_fails p =
    (case p of Failed st err \<Rightarrow> st = None \<or> st = Some DOWN | Finished st msg ping \<Rightarrow> False)"

definition probe_succeeds :: "probe_outcome \<Rightarrow> bool" where
  "probe_succeeds p =
    (case p of Finished st msg ping \<Rightarrow> st = Some UP | Failed st err \<Rightarrow> False)"

text \<open>Concrete inputs for the worked examples.\<close>

definition example_provider :: notification where
  "example_provider = \<lparr>ntf_id = 1, ntf_name = ''mail''\<rparr>"

definition example_monitor :: monitor where
  "example_monitor =
    \<lparr>mon_id = 1, mon_name = ''web'', mon_url = ''https://example.com'', mon_type = ''http'',
     mon_interval = 60, mon_retryInterval = 30, mon_resendInterval = 0, mon_maxretries = 2,
     mon_timeout = Some 48, mon_upsideDown = False, mon_ignoreTls = False,
     mon_expiryNotification = True, mon_isStop = False\<rparr>"

definition example_env :: "int \<Rightarrow> probe_outcome \<Rightarrow> tick_env" where
  "example_env t p =
    \<lparr>env_now = t, env_demoMode = False, env_latest = None, env_underMaintenance = False,
     env_children = [], env_probe = p, env_notificationList = [example_provider],
     env_timeoutText = ''48''\<rparr>"

definition example_beat :: "status \<Rightarrow> heartbeat" where
  "example_beat st =
    \<lparr>hb_monitor_id = 1, hb_time = 0, hb_status = st, hb_msg = ''200 - OK'', hb_ping = Some 12,
     hb_duration = 0, hb_important = True, hb_downCount = 0\<rparr>"

text \<open>
  The bound on \<open>downCount\<close>.  \<open>downCount_below\<close> says that a heartbeat the tick
  may start from (the closure variable or the repository's latest row) has a
  \<open>downCount\<close> below the resend interval.  \<open>tick_downCount_ok\<close> is what a tick
  must leave: the bean handed to the notifier, whose \<open>downCount\<close> is the value
  just before the reset, does not exceed the resend interval; the bean stored
  is below it, is 0 when the beat is important, and is 0 whenever the notifier
  was called.
\<close>

definition downCount_below :: "monitor \<Rightarrow> heartbeat option \<Rightarrow> bool" where
  "downCount_below m h =
    (case h of None \<Rightarrow> True | Some b \<Rightarrow> int (hb_downCount b) < mon_resendInterval m)"

definition tick_downCount_ok :: "monitor \<Rightarrow> tick_result \<Rightarrow> bool" where
  "tick_downCount_ok m r =
    ((case res_dispatched r of
        None \<Rightarrow> True
      | Some d \<Rightarrow> int (hb_downCount d) \<le> mon_resendInterval m)
     \<and> (case res_stored r of
          None \<Rightarrow> True
        | Some b \<Rightarrow> int (hb_downCount b) < mon_resendInterval m
                    \<and> (hb_important b \<longrightarrow> hb_downCount b = 0)
                    \<and> (res_dispatched r \<noteq> None \<longrightarrow> hb_downCount b = 0)))"

text \<open>
  The repository rows a run reads: for a push monitor the latest row at every
  tick, for any other monitor the row loaded at the first tick when the
  closure holds no previous beat.  \<open>rows_below\<close> says that these rows have a
  \<open>downCount\<close> below the resend interval.
\<close>

definition rows_below :: "monitor \<Rightarrow> runtime \<Rightarrow> tick_env list \<Rightarrow> bool" where
  "rows_below m rt envs =
    ((mon_type m = ''push'' \<longrightarrow> list_all (\<lambda>env. downCount_below m (env_latest env)) envs)
     \<and> (previousBeat rt = None \<longrightarrow>
          (case envs of [] \<Rightarrow> True | env # rest \<Rightarrow> downCount_below m (env_latest env))))"

text \<open>
  The \<open>downCount\<close> a tick starts from, \<open>previousBeat?.downCount || 0\<close>, and the
  effects of a resend: the pre-command for DOWN, then one send per provider,
  with the bean as it is just before the reset.
\<close>

definition carried_downCount :: "monitor \<Rightarrow> runtime \<Rightarrow> tick_env \<Rightarrow> nat" where
  "carried_downCount m rt env =
    (case load_previous m rt env of None \<Rightarrow> 0 | Some pb \<Rightarrow> hb_downCount pb)"

definition resend_effects :: "monitor \<Rightarrow> tick_env \<Rightarrow> heartbeat \<Rightarrow> effect list" where
  "resend_effects m env d =
    PreCommand DOWN #
    map (\<lambda>n. Send n (notification_msg m d) (heartbeatJSON d)) (env_notificationList env)"

definition resend_monitor :: monitor where
  "resend_monitor = example_monitor\<lparr>mon_resendInterval := 3, mon_maxretries := 0\<rparr>"

definition five_failures :: "tick_env list" where
  "five_failures = map (\<lambda>t. example_env t (Failed None (Error ''connect ECONNREFUSED'')))
     [0, 60000, 120000, 180000, 240000]"

text \<open>
  A repository row left from before the resend interval was lowered to 3: the
  latest heartbeat is DOWN with \<open>downCount\<close> 9.  And the closure after two
  counted DOWN beats, with the tick that follows.
\<close>

definition stale_env :: tick_env where
  "stale_env = (example_env 600000 (Failed None (Error ''connect ECONNREFUSED'')))
     \<lparr>env_latest := Some ((example_beat DOWN)\<lparr>hb_downCount := 9\<rparr>)\<rparr>"

definition down_beat :: "int \<Rightarrow> nat \<Rightarrow> heartbeat" where
  "down_beat t c =
    \<lparr>hb_monitor_id = 1, hb_time = t, hb_status = DOWN, hb_msg = ''connect ECONNREFUSED'',
     hb_ping = None, hb_duration = 60, hb_important = False, hb_downCount = c\<rparr>"

definition down_twice :: runtime where
  "down_twice = \<lparr>previousBeat = Some (down_beat 120000 2), retries = 0\<rparr>"

definition fourth_tick :: tick_env where
  "fourth_tick = example_env 180000 (Failed None (Error ''connect ECONNREFUSED''))"

text \<open>
  The push window.  The good status of the previous heartbeat is UP, or DOWN
  for an upside-down monitor.  The window is missed when the repository has no
  heartbeat of the monitor, or its latest one does not have the good status,
  or it is older than the beat interval plus the buffer of 1000 ms.
\<close>

definition good_status :: "monitor \<Rightarrow> status" where
  "good_status m = (if mon_upsideDown m then DOWN else UP)"

definition push_window_missed :: "monitor \<Rightarrow> tick_env \<Rightarrow> bool" where
  "push_window_missed m env =
    (case env_latest env of
       None \<Rightarrow> True
     | Some pb \<Rightarrow> hb_status pb \<noteq> good_status m
                 \<or> env_now env - hb_time pb > beat_interval m env * 1000 + 1000)"

definition ms_since_latest :: "tick_env \<Rightarrow> int" where
  "ms_since_latest env = (case env_latest env of None \<Rightarrow> 0 | Some pb \<Rightarrow> env_now env - hb_time pb)"

text \<open>A \<open>try\<close> block raises an error with a given message.\<close>

definition raises :: "try_result \<Rightarrow> string \<Rightarrow> bool" where
  "raises r msg = (case r of Thrown (Error e) b \<Rightarrow> e = msg | _ \<Rightarrow> False)"

definition push_monitor :: monitor where
  "push_monitor = example_monitor\<lparr>mon_type := ''push''\<rparr>"

definition push_env :: "int \<Rightarrow> tick_env" where
  "push_env t = (example_env t (Failed None (Error [])))\<lparr>env_latest := Some (example_beat UP)\<rparr>"

text \<open>An upside-down monitor without retries, and a tick whose probe gets an accepted HTTP 200.\<close>

definition inverted_monitor :: monitor where
  "inverted_monitor = example_monitor\<lparr>mon_upsideDown := True, mon_maxretries := 0\<rparr>"

definition http_200 :: tick_env where
  "http_200 = example_env 0 (Finished (Some UP) ''200 - OK'' (Some 12))"




text \<open>
  Certificate expiry.  \<open>no_cert_rows\<close>: the history holds no certificate row of
  the monitor.  \<open>cert_row\<close>: the row inserted for a threshold.
\<close>

definition no_cert_rows :: "monitor \<Rightarrow> sent_row list \<Rightarrow> bool" where
  "no_cert_rows m history =
    (\<not> list_ex (\<lambda>r. row_type r = ''certificate'' \<and> row_monitor_id r = mon_id m) history)"

definition cert_row :: "monitor \<Rightarrow> int \<Rightarrow> sent_row" where
  "cert_row m days = \<lparr>row_type = ''certificate'', row_monitor_id = mon_id m, row_days = days\<rparr>"

definition leaf_cert :: cert_info where
  "leaf_cert = \<lparr>cert_subjectCN = ''example.com'', cert_certType = ''server'',
     cert_fingerprint256 = ''AA:01'', cert_daysRemaining = 10\<rparr>"

definition example_tls :: tls_info where
  "example_tls = \<lparr>tls_valid = True, tls_certInfo = [leaf_cert]\<rparr>"

definition empty_store :: tls_store where
  "empty_store = \<lparr>store_tls = (\<lambda>i. None), store_history = []\<rparr>"

definition always_delivers :: "notification \<Rightarrow> bool" where
  "always_delivers n = True"

text \<open>
  Uptime.  A heartbeat counts as up when its status is UP or MAINTENANCE.
  \<open>durations_nonneg\<close>: no heartbeat of the list has a negative duration.
\<close>

definition counts_as_up :: "heartbeat \<Rightarrow> bool" where
  "counts_as_up h = (hb_status h = UP \<or> hb_status h = MAINTENANCE)"

definition durations_nonneg :: "heartbeat list \<Rightarrow> bool" where
  "durations_nonneg hs = list_all (\<lambda>h. 0 \<le> hb_duration h) hs"

definition beat_at :: "int \<Rightarrow> status \<Rightarrow> int \<Rightarrow> heartbeat" where
  "beat_at t st d =
    \<lparr>hb_monitor_id = 1, hb_time = t, hb_status = st, hb_msg = [], hb_ping = None,
     hb_duration = d, hb_important = False, hb_downCount = 0\<rparr>"


section \<open>Lemmas about one tick\<close>

lemma patch_timeout_fields [simp]:
  "mon_id (patch_timeout m) = mon_id m"
  "mon_name (patch_timeout m) = mon_name m"
  "mon_type (patch_timeout m) = mon_type m"
  "mon_interval (patch_timeout m) = mon_interval m"
  "mon_retryInterval (patch_timeout m) = mon_retryInterval m"
  "mon_resendInterval (patch_timeout m) = mon_resendInterval m"
  "mon_maxretries (patch_timeout m) = mon_maxretries m"
  "mon_upsideDown (patch_timeout m) = mon_upsideDown m"
  "mon_isStop (patch_timeout m) = mon_isStop m"
  by (simp_all add: patch_timeout_def)

lemma isUpsideDown_patch [simp]: "isUpsideDown (patch_timeout m) = isUpsideDown m"
  by (simp add: isUpsideDown_def)

lemma plain_patch [simp]: "plain_monitor (patch_timeout m) = plain_monitor m"
  by (simp add: plain_monitor_def)

text \<open>The three ways a tick can go, by the way its \<open>try\<close> block ends.\<close>

lemma beat_Normal:
  "try_block (patch_timeout m) (load_previous m rt env) (beat_interval m env) env
     (new_bean m (load_previous m rt env) env) = Normal b \<Longrightarrow>
   beat m rt env = finish_tick (patch_timeout m) env (load_previous m rt env) b 0"
  by (simp add: beat_def Let_def)

lemma beat_Thrown:
  "try_block (patch_timeout m) (load_previous m rt env) (beat_interval m env) env
     (new_bean m (load_previous m rt env) env) = Thrown err b \<Longrightarrow>
   beat m rt env = finish_tick (patch_timeout m) env (load_previous m rt env)
      (fst (catch_block (patch_timeout m) env (retries rt) err b))
      (snd (catch_block (patch_timeout m) env (retries rt) err b))"
  by (simp add: beat_def Let_def)

lemma beat_EarlyReturn:
  "try_block (patch_timeout m) (load_previous m rt env) (beat_interval m env) env
     (new_bean m (load_previous m rt env) env) = EarlyReturn t \<Longrightarrow>
   beat m rt env = early_return (patch_timeout m) (load_previous m rt env) t"
  by (simp add: beat_def Let_def)

lemma res_monitor_beat [simp]: "res_monitor (beat m rt env) = patch_timeout m"
  by (cases "try_block (patch_timeout m) (load_previous m rt env) (beat_interval m env) env
     (new_bean m (load_previous m rt env) env)")
     (simp_all add: beat_Normal beat_Thrown beat_EarlyReturn finish_tick_def early_return_def Let_def)

lemma load_previous_Some:
  "previousBeat rt = Some b \<Longrightarrow> mon_type m \<noteq> ''push'' \<Longrightarrow> load_previous m rt env = Some b"
  by (simp add: load_previous_def)

lemma load_previous_None:
  "previousBeat rt = None \<Longrightarrow> load_previous m rt env = env_latest env"
  by (simp add: load_previous_def)

text \<open>A tick of a plain monitor whose probe fails, and one whose probe succeeds.\<close>

lemma beat_fails:
  assumes "\<not> env_underMaintenance env" "plain_monitor m" "probe_fails (env_probe env)"
  shows "\<exists>b. res_stored (beat m rt env) = Some b \<and> previousBeat (res_runtime (beat m rt env)) = Some b
     \<and> hb_status b = (if 0 < mon_maxretries m \<and> retries rt < mon_maxretries m then PENDING else DOWN)
     \<and> hb_important b = isImportantBeat (load_previous m rt env = None)
          (map_option hb_status (load_previous m rt env))
          (if 0 < mon_maxretries m \<and> retries rt < mon_maxretries m then PENDING else DOWN)
     \<and> retries (res_runtime (beat m rt env)) =
          (if 0 < mon_maxretries m \<and> retries rt < mon_maxretries m then retries rt + 1 else retries rt)"
proof -
  let ?prev = "load_previous m rt env"
  let ?bean = "new_bean m ?prev env"
  from assms obtain st err where p: "env_probe env = Failed st err" and st: "st = None \<or> st = Some DOWN"
    by (auto simp: probe_fails_def split: probe_outcome.splits)
  have down: "hb_status ?bean = DOWN"
    using assms by (simp add: new_bean_def isUpsideDown_def plain_monitor_def)
  have tb: "try_block (patch_timeout m) ?prev (beat_interval m env) env ?bean = Thrown err ?bean"
    using assms p st down by (auto simp: try_block_def dispatch_def probe_branch_def plain_monitor_def)
  show ?thesis
    unfolding beat_Thrown[OF tb]
    using assms down
    by (simp add: finish_tick_def Let_def catch_block_def importance_block_def isUpsideDown_def
        plain_monitor_def)
qed

lemma beat_succeeds:
  assumes "\<not> env_underMaintenance env" "plain_monitor m" "probe_succeeds (env_probe env)"
  shows "\<exists>b. res_stored (beat m rt env) = Some b \<and> previousBeat (res_runtime (beat m rt env)) = Some b
     \<and> hb_status b = UP
     \<and> hb_important b = isImportantBeat (load_previous m rt env = None)
          (map_option hb_status (load_previous m rt env)) UP
     \<and> retries (res_runtime (beat m rt env)) = 0"
proof -
  let ?prev = "load_previous m rt env"
  let ?bean = "new_bean m ?prev env"
  from assms obtain msg ping where p: "env_probe env = Finished (Some UP) msg ping"
    by (auto simp: probe_succeeds_def split: probe_outcome.splits)
  have tb: "try_block (patch_timeout m) ?prev (beat_interval m env) env ?bean
      = Normal (?bean\<lparr>hb_status := UP, hb_msg := msg, hb_ping := ping\<rparr>)"
    using assms p
    by (simp add: try_block_def dispatch_def probe_branch_def plain_monitor_def isUpsideDown_def)
  show ?thesis
    unfolding beat_Normal[OF tb]
    by (simp add: finish_tick_def Let_def importance_block_def)
qed

text \<open>The first beat of a monitor is always important, and always handed to the notifier.\<close>

lemma finish_tick_first:
  "res_stored (finish_tick m env None b1 rtr) = Some (b1\<lparr>hb_important := True, hb_downCount := 0\<rparr>)"
  "res_dispatched (finish_tick m env None b1 rtr) = Some (b1\<lparr>hb_important := True\<rparr>)"
  "res_effects (finish_tick m env None b1 rtr) =
     sendNotification True m (env_notificationList env) (b1\<lparr>hb_important := True\<rparr>)"
  by (simp_all add: finish_tick_def Let_def importance_block_def isImportantBeat_def
      isImportantForNotification_def)

text \<open>\<open>downCount\<close> through the parts of a tick.\<close>

lemma downCount_below_patch [simp]: "downCount_below (patch_timeout m) h = downCount_below m h"
  by (simp add: downCount_below_def split: option.splits)

lemma tick_downCount_ok_patch [simp]: "tick_downCount_ok (patch_timeout m) r = tick_downCount_ok m r"
  by (simp add: tick_downCount_ok_def cong: option.case_cong)

lemma dispatch_downCount:
  "dispatch m prev bi env bean = Normal b \<Longrightarrow> hb_downCount b = hb_downCount bean"
  "dispatch m prev bi env bean = Thrown err b \<Longrightarrow> hb_downCount b = hb_downCount bean"
  by (auto simp: dispatch_def group_branch_def push_branch_def probe_branch_def Let_def
      split: if_splits option.splits probe_outcome.splits)

lemma try_block_downCount:
  "try_block m prev bi env bean = Normal b \<Longrightarrow> hb_downCount b = hb_downCount bean"
  "try_block m prev bi env bean = Thrown err b \<Longrightarrow> hb_downCount b = hb_downCount bean"
  by (auto simp: try_block_def Let_def dest: dispatch_downCount split: try_result.splits if_splits)

lemma catch_block_downCount [simp]:
  "hb_downCount (fst (catch_block m env rtr err b)) = hb_downCount b"
  by (simp add: catch_block_def Let_def)

lemma new_bean_downCount:
  "downCount_below m prev \<Longrightarrow> 0 < mon_resendInterval m \<Longrightarrow>
   int (hb_downCount (new_bean m prev env)) < mon_resendInterval m"
  by (simp add: new_bean_def downCount_below_def split: option.splits)

lemma finish_tick_downCount:
  assumes "0 < mon_resendInterval m" "int (hb_downCount b1) < mon_resendInterval m"
  shows "tick_downCount_ok m (finish_tick m env prev b1 rtr)"
    and "downCount_below m (previousBeat (res_runtime (finish_tick m env prev b1 rtr)))"
  using assms
  by (auto simp: tick_downCount_ok_def downCount_below_def finish_tick_def Let_def importance_block_def)

lemma load_previous_downCount':
  "downCount_below m (previousBeat rt) \<Longrightarrow>
   (previousBeat rt = None \<or> mon_type m = ''push'' \<Longrightarrow> downCount_below m (env_latest env)) \<Longrightarrow>
   downCount_below m (load_previous m rt env)"
  by (auto simp: load_previous_def)

lemma finish_tick_previous: "previousBeat (res_runtime (finish_tick m env prev b1 rtr)) \<noteq> None"
  by (simp add: finish_tick_def Let_def)

lemma try_block_no_early:
  "mon_type m \<noteq> ''push'' \<Longrightarrow> try_block m prev bi env bean \<noteq> EarlyReturn t"
  by (auto simp: try_block_def dispatch_def probe_branch_def Let_def
      split: try_result.splits probe_outcome.splits if_splits)

lemma beat_downCount:
  assumes pos: "0 < mon_resendInterval m"
    and rt: "downCount_below m (previousBeat rt)"
    and db: "previousBeat rt = None \<or> mon_type m = ''push'' \<Longrightarrow> downCount_below m (env_latest env)"
  shows "tick_downCount_ok m (beat m rt env)"
    and "downCount_below m (previousBeat (res_runtime (beat m rt env)))"
    and "mon_type m \<noteq> ''push'' \<Longrightarrow> previousBeat (res_runtime (beat m rt env)) \<noteq> None"
proof -
  let ?prev = "load_previous m rt env"
  let ?bean = "new_bean m ?prev env"
  let ?m = "patch_timeout m"
  have prev: "downCount_below m ?prev" using rt db by (rule load_previous_downCount')
  have bean: "int (hb_downCount ?bean) < mon_resendInterval ?m"
    using new_bean_downCount[OF prev pos] by simp
  have pos': "0 < mon_resendInterval ?m" using pos by simp
  have "tick_downCount_ok m (beat m rt env)
      \<and> downCount_below m (previousBeat (res_runtime (beat m rt env)))
      \<and> (mon_type m \<noteq> ''push'' \<longrightarrow> previousBeat (res_runtime (beat m rt env)) \<noteq> None)"
  proof (cases "try_block ?m ?prev (beat_interval m env) env ?bean")
    case (Normal b)
    have "int (hb_downCount b) < mon_resendInterval ?m"
      using try_block_downCount(1)[OF Normal] bean by simp
    from finish_tick_downCount[OF pos' this] show ?thesis
      unfolding beat_Normal[OF Normal] by (simp add: finish_tick_previous)
  next
    case (Thrown err b)
    have "int (hb_downCount (fst (catch_block ?m env (retries rt) err b))) < mon_resendInterval ?m"
      using try_block_downCount(2)[OF Thrown] bean by simp
    from finish_tick_downCount[OF pos' this] show ?thesis
      unfolding beat_Thrown[OF Thrown] by (simp add: finish_tick_previous)
  next
    case (EarlyReturn t)
    have "mon_type m = ''push''"
      using try_block_no_early[of ?m ?prev "beat_interval m env" env ?bean t] EarlyReturn by auto
    then show ?thesis unfolding beat_EarlyReturn[OF EarlyReturn]
      using prev by (simp add: early_return_def tick_downCount_ok_def)
  qed
  then show "tick_downCount_ok m (beat m rt env)"
    and "downCount_below m (previousBeat (res_runtime (beat m rt env)))"
    and "mon_type m \<noteq> ''push'' \<Longrightarrow> previousBeat (res_runtime (beat m rt env)) \<noteq> None"
    by simp_all
qed

lemma rows_below_patch [simp]: "rows_below (patch_timeout m) rt envs = rows_below m rt envs"
  by (simp add: rows_below_def cong: list.case_cong)

lemma rows_below_step:
  assumes "rows_below m rt (env # envs)"
    and "mon_type m \<noteq> ''push'' \<Longrightarrow> previousBeat rt' \<noteq> None"
  shows "rows_below m rt' envs"
  using assms by (cases envs) (auto simp: rows_below_def)

lemma rows_below_head:
  "rows_below m rt (env # envs) \<Longrightarrow> previousBeat rt = None \<or> mon_type m = ''push'' \<Longrightarrow>
   downCount_below m (env_latest env)"
  by (auto simp: rows_below_def)

text \<open>The push branch, the flip of upside-down mode and the group branch inside a tick.\<close>

lemma load_previous_push: "mon_type m = ''push'' \<Longrightarrow> load_previous m rt env = env_latest env"
  by (simp add: load_previous_def)

lemma try_block_push:
  assumes "mon_type m = ''push''" "\<not> env_underMaintenance env"
  shows "try_block m prev bi env bean = push_branch m prev (env_now env) bi bean"
  using assms
  by (simp add: try_block_def dispatch_def push_branch_def Let_def split: option.splits)

lemma push_branch_missed:
  "(case prev of None \<Rightarrow> True
    | Some pb \<Rightarrow> hb_status pb \<noteq> good_status m \<or> now - hb_time pb > bi * 1000 + 1000) \<Longrightarrow>
   push_branch m prev now bi bean = Thrown (Error ''No heartbeat in the time window'') bean"
  by (cases prev) (auto simp: push_branch_def good_status_def isUpsideDown_def)

lemma push_branch_inside:
  "prev = Some pb \<Longrightarrow> hb_status pb = good_status m \<Longrightarrow> \<not> now - hb_time pb > bi * 1000 + 1000 \<Longrightarrow>
   push_branch m prev now bi bean = EarlyReturn (max 0 (bi * 1000 - (now - hb_time pb)) + 1000)"
  by (simp add: push_branch_def good_status_def isUpsideDown_def max_def)

lemma good_status_patch [simp]: "good_status (patch_timeout m) = good_status m"
  by (simp add: good_status_def)

lemma importance_block_keeps [simp]:
  "hb_status (fst (importance_block m first ps b)) = hb_status b"
  "hb_msg (fst (importance_block m first ps b)) = hb_msg b"
  by (simp_all add: importance_block_def Let_def)

lemma res_stored_finish_tick:
  "res_stored (finish_tick m env prev b1 rtr)
     = Some (fst (importance_block m (prev = None) (map_option hb_status prev) b1))"
  by (simp add: finish_tick_def Let_def)

lemma catch_block_msg [simp]:
  "hb_msg (fst (catch_block m env rtr (Error msg) b)) = msg"
  by (simp add: catch_block_def Let_def)

lemma try_block_flip:
  assumes "mon_upsideDown m" "mon_type m \<noteq> ''group''" "mon_type m \<noteq> ''push''"
    "\<not> env_underMaintenance env" "env_probe env = Finished (Some UP) msg ping"
  shows "try_block m prev bi env bean
     = Thrown (Error ''Flip UP to DOWN'') (bean\<lparr>hb_status := DOWN, hb_msg := msg, hb_ping := ping\<rparr>)"
  using assms by (simp add: try_block_def dispatch_def probe_branch_def isUpsideDown_def Let_def)

lemma catch_block_status:
  "hb_status b = DOWN \<Longrightarrow>
   hb_status (fst (catch_block m env rtr err b))
     = (if 0 < mon_maxretries m \<and> rtr < mon_maxretries m then PENDING else DOWN)"
  "hb_status b = DOWN \<Longrightarrow>
   snd (catch_block m env rtr err b)
     = (if 0 < mon_maxretries m \<and> rtr < mon_maxretries m then rtr + 1 else rtr)"
  by (simp_all add: catch_block_def Let_def)

lemma finish_tick_fields:
  "retries (res_runtime (finish_tick m env prev b1 rtr)) = rtr"
  "previousBeat (res_runtime (finish_tick m env prev b1 rtr)) = res_stored (finish_tick m env prev b1 rtr)"
  by (simp_all add: finish_tick_def Let_def)

lemma importance_block_important [simp]:
  "hb_important (fst (importance_block m first ps b)) = isImportantBeat first ps (hb_status b)"
  by (simp add: importance_block_def Let_def)

text \<open>The resend block inside a tick.\<close>

lemma notification_msg_patch [simp]: "notification_msg (patch_timeout m) b = notification_msg m b"
  by (simp add: notification_msg_def)

lemma new_bean_carried: "hb_downCount (new_bean m (load_previous m rt env) env) = carried_downCount m rt env"
  by (simp add: new_bean_def carried_downCount_def split: option.splits)

lemma importance_block_important_case:
  "isImportantBeat f ps (hb_status b1) \<Longrightarrow>
   hb_downCount (fst (importance_block m f ps b1)) = 0"
  by (simp add: importance_block_def Let_def)

lemma importance_block_resend:
  assumes "\<not> isImportantBeat f ps (hb_status b1)" "hb_status b1 = DOWN" "0 < mon_resendInterval m"
    and "mon_resendInterval m \<le> int (hb_downCount b1 + 1)"
  shows "importance_block m f ps b1 =
     (b1\<lparr>hb_important := False, hb_downCount := 0\<rparr>,
      Some (b1\<lparr>hb_important := False, hb_downCount := hb_downCount b1 + 1\<rparr>))"
  using assms by (simp add: importance_block_def Let_def)

lemma importance_block_count:
  assumes "\<not> isImportantBeat f ps (hb_status b1)" "hb_status b1 = DOWN" "0 < mon_resendInterval m"
    and "int (hb_downCount b1 + 1) < mon_resendInterval m"
  shows "importance_block m f ps b1 =
     (b1\<lparr>hb_important := False, hb_downCount := hb_downCount b1 + 1\<rparr>, None)"
  using assms by (simp add: importance_block_def Let_def)

lemma finish_tick_parts:
  "res_dispatched (finish_tick m env prev b1 rtr)
     = snd (importance_block m (prev = None) (map_option hb_status prev) b1)"
  "res_effects (finish_tick m env prev b1 rtr)
     = (case snd (importance_block m (prev = None) (map_option hb_status prev) b1) of
          None \<Rightarrow> []
        | Some b \<Rightarrow> sendNotification (prev = None) m (env_notificationList env) b)"
  by (simp_all add: finish_tick_def Let_def)

lemma finish_tick_resend:
  assumes st: "res_stored (finish_tick m env prev b1 rtr) = Some b"
    and ni: "\<not> hb_important b" and dn: "hb_status b = DOWN" and pos: "0 < mon_resendInterval m"
  shows "mon_resendInterval m \<le> int (hb_downCount b1 + 1) \<Longrightarrow>
           res_dispatched (finish_tick m env prev b1 rtr) = Some (b\<lparr>hb_downCount := hb_downCount b1 + 1\<rparr>)
           \<and> res_effects (finish_tick m env prev b1 rtr)
               = resend_effects m env (b\<lparr>hb_downCount := hb_downCount b1 + 1\<rparr>)
           \<and> hb_downCount b = 0"
    and "int (hb_downCount b1 + 1) < mon_resendInterval m \<Longrightarrow>
           res_dispatched (finish_tick m env prev b1 rtr) = None
           \<and> res_effects (finish_tick m env prev b1 rtr) = []
           \<and> hb_downCount b = hb_downCount b1 + 1"
proof -
  let ?f = "prev = None" and ?ps = "map_option hb_status prev"
  have b: "b = fst (importance_block m ?f ?ps b1)"
    using st by (simp add: res_stored_finish_tick)
  have n: "\<not> isImportantBeat ?f ?ps (hb_status b1)" using ni b by simp
  have d: "hb_status b1 = DOWN" using dn b by simp
  show "mon_resendInterval m \<le> int (hb_downCount b1 + 1) \<Longrightarrow>
           res_dispatched (finish_tick m env prev b1 rtr) = Some (b\<lparr>hb_downCount := hb_downCount b1 + 1\<rparr>)
           \<and> res_effects (finish_tick m env prev b1 rtr)
               = resend_effects m env (b\<lparr>hb_downCount := hb_downCount b1 + 1\<rparr>)
           \<and> hb_downCount b = 0"
    using d unfolding b finish_tick_parts
    by (simp add: importance_block_resend[OF n d pos] sendNotification_def resend_effects_def)
  show "int (hb_downCount b1 + 1) < mon_resendInterval m \<Longrightarrow>
           res_dispatched (finish_tick m env prev b1 rtr) = None
           \<and> res_effects (finish_tick m env prev b1 rtr) = []
           \<and> hb_downCount b = hb_downCount b1 + 1"
    unfolding b finish_tick_parts
    by (simp add: importance_block_count[OF n d pos])
qed

lemma finish_tick_important:
  "res_stored (finish_tick m env prev b1 rtr) = Some b \<Longrightarrow> hb_important b \<Longrightarrow> hb_downCount b = 0"
  by (auto simp: res_stored_finish_tick importance_block_important_case)

lemma beat_stored_finish:
  assumes "res_stored (beat m rt env) = Some b"
  shows "\<exists>b1 rtr. beat m rt env = finish_tick (patch_timeout m) env (load_previous m rt env) b1 rtr
           \<and> hb_downCount b1 = carried_downCount m rt env"
proof (cases "try_block (patch_timeout m) (load_previous m rt env) (beat_interval m env) env
     (new_bean m (load_previous m rt env) env)")
  case (Normal x)
  from beat_Normal[OF Normal] try_block_downCount(1)[OF Normal] show ?thesis
    by (auto simp: new_bean_carried)
next
  case (Thrown e x)
  from beat_Thrown[OF Thrown] try_block_downCount(2)[OF Thrown] show ?thesis
    by (auto simp: new_bean_carried)
next
  case (EarlyReturn t)
  then show ?thesis using assms by (simp add: beat_EarlyReturn early_return_def)
qed



text \<open>The expiry check: a send that is suppressed, a send that goes out, and the loop along the chain.\<close>

lemma find_sent_already_None:
  "no_cert_rows m history \<Longrightarrow> find (sent_already m t) history = None"
  by (auto simp: no_cert_rows_def find_None_iff sent_already_def list_ex_iff)

lemma find_sent_already_Some:
  "r \<in> set history \<Longrightarrow> sent_already m t r \<Longrightarrow> \<exists>row. find (sent_already m t) history = Some row"
  by (cases "find (sent_already m t) history") (auto simp: find_None_iff)

lemma sendCert_already:
  "r \<in> set history \<Longrightarrow> sent_already m t r \<Longrightarrow>
   sendCertNotificationByTargetDays m dl cn ct dr t nl history = (history, [])"
  using find_sent_already_Some[of r history m t]
  by (auto simp: sendCertNotificationByTargetDays_def)

lemma sendCert_fresh:
  "no_cert_rows m history \<Longrightarrow> list_ex dl nl \<Longrightarrow>
   sendCertNotificationByTargetDays m dl cn ct dr t nl history
     = (history @ [cert_row m t], map (\<lambda>n. (t, n, cert_text m ct cn dr)) nl)"
  by (simp add: sendCertNotificationByTargetDays_def find_sent_already_None cert_row_def)

lemma loop_not_due:
  "\<forall>c \<in> set cs. t < cert_daysRemaining c \<Longrightarrow> cert_chain_loop m dl roots nl t cs acc = acc"
  by (induction cs) simp_all

lemma loop_already:
  "r \<in> set (fst acc) \<Longrightarrow> sent_already m t r \<Longrightarrow> cert_chain_loop m dl roots nl t cs acc = acc"
proof (induction cs)
  case Nil
  then show ?case by simp
next
  case (Cons c cs)
  then show ?case by (simp add: sendCert_already)
qed

lemma check_first:
  assumes leaf: "cert_daysRemaining leaf = 10" "cert_fingerprint256 leaf \<notin> set roots"
    and rest: "\<forall>c \<in> set issuers. 7 < cert_daysRemaining c"
    and providers: "list_ex dl nl"
    and fresh: "no_cert_rows m history"
    and setting: "setting = None \<or> setting = Some [7, 14, 21]"
  shows "checkCertExpiryNotifications m dl roots setting nl \<lparr>tls_valid = v, tls_certInfo = leaf # issuers\<rparr> history
     = (history @ [cert_row m 14],
        map (\<lambda>n. (14, n, cert_text m (cert_certType leaf) (cert_subjectCN leaf) 10)) nl)"
proof -
  let ?chain = "leaf # issuers"
  let ?loop = "\<lambda>t. cert_chain_loop m dl roots nl t ?chain"
  let ?ev = "map (\<lambda>n. (14, n, cert_text m (cert_certType leaf) (cert_subjectCN leaf) 10)) nl"
  have nl: "length nl > 0" using providers by (auto simp: list_ex_iff)
  have days: "(case setting of None \<Rightarrow> [7, 14, 21] | Some days \<Rightarrow> days) = [7, 14, 21]"
    using setting by auto
  have s7: "?loop 7 (history, []) = (history, [])"
    using leaf rest by (intro loop_not_due) simp
  have row: "cert_row m 14 \<in> set (history @ [cert_row m 14])" by simp
  have s14: "?loop 14 (history, []) = (history @ [cert_row m 14], ?ev)"
    using leaf loop_already[OF _ _, of "cert_row m 14" "(history @ [cert_row m 14], ?ev)" m 14]
    by (simp add: sendCert_fresh[OF fresh providers] sent_already_def cert_row_def)
  have s21: "?loop 21 (history @ [cert_row m 14], ?ev) = (history @ [cert_row m 14], ?ev)"
    by (rule loop_already[of "cert_row m 14"]) (simp_all add: sent_already_def cert_row_def)
  show ?thesis
    using leaf nl by (simp add: checkCertExpiryNotifications_def days s7 s14 s21 del: cert_chain_loop.simps)
qed

lemma check_repeat:
  assumes leaf: "cert_daysRemaining leaf = 10"
    and rest: "\<forall>c \<in> set issuers. 7 < cert_daysRemaining c"
    and sent: "cert_row m 14 \<in> set history"
    and setting: "setting = None \<or> setting = Some [7, 14, 21]"
  shows "checkCertExpiryNotifications m dl roots setting nl \<lparr>tls_valid = v, tls_certInfo = leaf # issuers\<rparr> history
     = (history, [])"
proof -
  let ?chain = "leaf # issuers"
  let ?loop = "\<lambda>t. cert_chain_loop m dl roots nl t ?chain"
  have days: "(case setting of None \<Rightarrow> [7, 14, 21] | Some days \<Rightarrow> days) = [7, 14, 21]"
    using setting by auto
  have s7: "?loop 7 (history, []) = (history, [])"
    using leaf rest by (intro loop_not_due) simp
  have s14: "?loop 14 (history, []) = (history, [])"
    using sent by (intro loop_already[of "cert_row m 14"]) (simp_all add: sent_already_def cert_row_def)
  have s21: "?loop 21 (history, []) = (history, [])"
    using sent by (intro loop_already[of "cert_row m 14"]) (simp_all add: sent_already_def cert_row_def)
  show ?thesis
    using leaf by (simp add: checkCertExpiryNotifications_def days s7 s14 s21 del: cert_chain_loop.simps)
qed


lemma updateTlsInfo_history_fresh:
  "no_cert_rows m (store_history st) \<Longrightarrow> store_history (updateTlsInfo m t st) = store_history st"
  by (auto simp: updateTlsInfo_def no_cert_rows_def list_ex_iff filter_id_conv split: option.splits)

lemma updateTlsInfo_stored: "store_tls (updateTlsInfo m t st) (mon_id m) = Some t"
  by (simp add: updateTlsInfo_def split: option.splits)

lemma updateTlsInfo_same:
  "store_tls st (mon_id m) = Some t \<Longrightarrow> store_history (updateTlsInfo m t st) = store_history st"
  by (simp add: updateTlsInfo_def)

lemma handleTlsInfo_enabled:
  "mon_expiryNotification m \<Longrightarrow> \<not> mon_ignoreTls m \<Longrightarrow>
   handleTlsInfo m dl roots setting nl t st =
     ((updateTlsInfo m t st)\<lparr>store_history :=
         fst (checkCertExpiryNotifications m dl roots setting nl t (store_history (updateTlsInfo m t st)))\<rparr>,
      snd (checkCertExpiryNotifications m dl roots setting nl t (store_history (updateTlsInfo m t st))))"
  by (simp add: handleTlsInfo_def Let_def getIgnoreTls_def isEnabledExpiryNotification_def)

text \<open>The sums of the uptime query.\<close>

lemma status_code_up: "(status_code s = 1 \<or> status_code s = 3) = (s = UP \<or> s = MAINTENANCE)"
  by (cases s) simp_all

lemma js_number_sql_sum [simp]: "js_number (sql_sum xs) = sum_list xs"
  by (simp add: js_number_def sql_sum_def)

lemma trimmed_nonneg: "startTime \<le> hb_time h \<Longrightarrow> 0 \<le> hb_duration h \<Longrightarrow> 0 \<le> trimmed startTime h"
  by (simp add: trimmed_def)

lemma sum_list_filter_le:
  fixes f :: "'a \<Rightarrow> real"
  shows "\<forall>x \<in> set xs. 0 \<le> f x \<Longrightarrow> sum_list (map f (filter P xs)) \<le> sum_list (map f xs)"
  by (induction xs) auto

lemma in_window_time: "h \<in> set (in_window startTime monitorID table) \<Longrightarrow> startTime \<le> hb_time h"
  by (simp add: in_window_def)

lemma uptime_le_total:
  assumes "durations_nonneg (in_window startTime monitorID table)"
  shows "js_number (uptime_duration startTime monitorID table)
           \<le> js_number (total_duration startTime monitorID table)"
    and "0 \<le> js_number (uptime_duration startTime monitorID table)"
proof -
  have nn: "\<forall>h \<in> set (in_window startTime monitorID table). 0 \<le> trimmed startTime h"
    using assms by (auto simp: durations_nonneg_def list_all_iff intro: trimmed_nonneg in_window_time)
  show "js_number (uptime_duration startTime monitorID table)
           \<le> js_number (total_duration startTime monitorID table)"
    using sum_list_filter_le[OF nn] by (simp add: uptime_duration_def total_duration_def)
  show "0 \<le> js_number (uptime_duration startTime monitorID table)"
    using nn by (auto simp: uptime_duration_def intro!: sum_list_nonneg)
qed

section \<open>The transition classifier\<close>


text \<open>
  Claim C3.  For every \<open>first\<close>, \<open>prev\<close> and \<open>curr\<close>,
  \<open>isImportantForNotification\<close> is true exactly when the beat is the first one,
  or the transition is UP to DOWN, DOWN to UP, PENDING to DOWN or MAINTENANCE
  to DOWN.  In particular a beat that is not the first is never important for
  notification when it enters MAINTENANCE or goes from MAINTENANCE to UP.
\<close>

theorem isImportantForNotification_iff:
  "isImportantForNotification first previous current =
     (first \<or> (previous = Some UP \<and> current = DOWN) \<or> (previous = Some DOWN \<and> current = UP) \<or>
      (previous = Some PENDING \<and> current = DOWN) \<or> (previous = Some MAINTENANCE \<and> current = DOWN))
   \<and> isImportantForNotification False previous MAINTENANCE = False
   \<and> isImportantForNotification False (Some MAINTENANCE) UP = False"
  unfolding isImportantForNotification_def by auto


section \<open>Retries\<close>

text \<open>
  Claim C4.  A plain monitor with interval 60, maxretries 2, retryInterval 30
  and resendInterval 0 starts with no heartbeat in the repository; its probe
  fails three times and then succeeds, outside maintenance.  The four beats
  stored have statuses PENDING, PENDING, DOWN, UP and important flags true,
  false, true, true, and \<open>retries\<close> is 0 after the fourth.
\<close>

theorem flap_with_retries_trajectory:
  assumes config: "mon_interval m = 60" "mon_maxretries m = 2" "mon_retryInterval m = 30"
      "mon_resendInterval m = 0"
    and plain: "plain_monitor m"
    and fresh: "env_latest e1 = None"
    and nomaint: "\<not> env_underMaintenance e1" "\<not> env_underMaintenance e2"
      "\<not> env_underMaintenance e3" "\<not> env_underMaintenance e4"
    and probes: "probe_fails (env_probe e1)" "probe_fails (env_probe e2)"
      "probe_fails (env_probe e3)" "probe_succeeds (env_probe e4)"
  shows "map (map_option hb_status \<circ> res_stored) (run m initial_runtime [e1, e2, e3, e4])
           = [Some PENDING, Some PENDING, Some DOWN, Some UP]
       \<and> map (map_option hb_important \<circ> res_stored) (run m initial_runtime [e1, e2, e3, e4])
           = [Some True, Some False, Some True, Some True]
       \<and> retries (res_runtime (last (run m initial_runtime [e1, e2, e3, e4]))) = 0"
proof -
  define r1 where "r1 = beat m initial_runtime e1"
  define m1 where "m1 = patch_timeout m"
  define r2 where "r2 = beat m1 (res_runtime r1) e2"
  define m2 where "m2 = patch_timeout m1"
  define r3 where "r3 = beat m2 (res_runtime r2) e3"
  define m3 where "m3 = patch_timeout m2"
  define r4 where "r4 = beat m3 (res_runtime r3) e4"
  have run: "run m initial_runtime [e1, e2, e3, e4] = [r1, r2, r3, r4]"
    by (simp add: Let_def r1_def r2_def r3_def r4_def m1_def m2_def m3_def)
  have np: "mon_type m \<noteq> ''push''" using plain by (simp add: plain_monitor_def)
  have l1: "load_previous m initial_runtime e1 = None"
    using fresh by (simp add: load_previous_def initial_runtime_def)
  from beat_fails[OF nomaint(1) plain probes(1), of initial_runtime] config l1
  obtain b1 where b1: "res_stored r1 = Some b1" "previousBeat (res_runtime r1) = Some b1"
      "hb_status b1 = PENDING" "hb_important b1" "retries (res_runtime r1) = 1"
    by (auto simp: r1_def initial_runtime_def isImportantBeat_def)
  have p1: "plain_monitor m1" "mon_maxretries m1 = 2" "mon_type m1 \<noteq> ''push''"
    using plain config np by (simp_all add: m1_def)
  have l2: "load_previous m1 (res_runtime r1) e2 = Some b1"
    using b1 p1 by (simp add: load_previous_Some)
  from beat_fails[OF nomaint(2) p1(1) probes(2), of "res_runtime r1"] p1 l2 b1
  obtain b2 where b2: "res_stored r2 = Some b2" "previousBeat (res_runtime r2) = Some b2"
      "hb_status b2 = PENDING" "\<not> hb_important b2" "retries (res_runtime r2) = 2"
    by (auto simp: r2_def isImportantBeat_def)
  have p2: "plain_monitor m2" "mon_maxretries m2 = 2" "mon_type m2 \<noteq> ''push''"
    using p1 by (simp_all add: m2_def)
  have l3: "load_previous m2 (res_runtime r2) e3 = Some b2"
    using b2 p2 by (simp add: load_previous_Some)
  from beat_fails[OF nomaint(3) p2(1) probes(3), of "res_runtime r2"] p2 l3 b2
  obtain b3 where b3: "res_stored r3 = Some b3" "previousBeat (res_runtime r3) = Some b3"
      "hb_status b3 = DOWN" "hb_important b3" "retries (res_runtime r3) = 2"
    by (auto simp: r3_def isImportantBeat_def)
  have p3: "plain_monitor m3" "mon_type m3 \<noteq> ''push''"
    using p2 by (simp_all add: m3_def)
  have l4: "load_previous m3 (res_runtime r3) e4 = Some b3"
    using b3 p3 by (simp add: load_previous_Some)
  from beat_succeeds[OF nomaint(4) p3(1) probes(4), of "res_runtime r3"] l4 b3
  obtain b4 where b4: "res_stored r4 = Some b4" "hb_status b4 = UP" "hb_important b4"
      "retries (res_runtime r4) = 0"
    by (auto simp: r4_def isImportantBeat_def)
  show ?thesis
    unfolding run using b1 b2 b3 b4 by simp
qed

theorem flap_with_retries_witness:
  "map (map_option hb_status \<circ> res_stored)
     (run example_monitor initial_runtime
        [example_env 0 (Failed None (Error ''connect ECONNREFUSED'')),
         example_env 30000 (Failed None (Error ''connect ECONNREFUSED'')),
         example_env 60000 (Failed None (CanceledError ''canceled'')),
         example_env 120000 (Finished (Some UP) ''200 - OK'' (Some 12))])
     = [Some PENDING, Some PENDING, Some DOWN, Some UP]
   \<and> map (map_option hb_important \<circ> res_stored)
     (run example_monitor initial_runtime
        [example_env 0 (Failed None (Error ''connect ECONNREFUSED'')),
         example_env 30000 (Failed None (Error ''connect ECONNREFUSED'')),
         example_env 60000 (Failed None (CanceledError ''canceled'')),
         example_env 120000 (Finished (Some UP) ''200 - OK'' (Some 12))])
     = [Some True, Some False, Some True, Some True]
   \<and> retries (res_runtime (last
     (run example_monitor initial_runtime
        [example_env 0 (Failed None (Error ''connect ECONNREFUSED'')),
         example_env 30000 (Failed None (Error ''connect ECONNREFUSED'')),
         example_env 60000 (Failed None (CanceledError ''canceled'')),
         example_env 120000 (Finished (Some UP) ''200 - OK'' (Some 12))]))) = 0"
  by (rule flap_with_retries_trajectory)
     (simp_all add: example_monitor_def example_env_def plain_monitor_def probe_fails_def
        probe_succeeds_def)


section \<open>The notification gate\<close>

text \<open>
  Claim C10.  \<open>Monitor.sendNotification\<close> runs the pre-command and calls the
  providers only when the beat is not the first one or its status is DOWN:
  then it runs the pre-command once and calls every provider in turn, and
  otherwise it does nothing at all.  So the first beat of a monitor, when its
  status is UP, PENDING or MAINTENANCE, is handed to \<open>sendNotification\<close> (every
  first beat is important for notification) and yet sends nothing and runs no
  pre-command.
\<close>

theorem first_beat_notification_gate:
  "(\<not> isFirstBeat \<or> hb_status bean = DOWN \<longrightarrow>
      sendNotification isFirstBeat m nl bean =
        PreCommand (hb_status bean) #
        map (\<lambda>n. Send n (notification_msg m bean) (heartbeatJSON bean)) nl)
   \<and> (isFirstBeat \<and> hb_status bean \<noteq> DOWN \<longrightarrow> sendNotification isFirstBeat m nl bean = [])
   \<and> isImportantForNotification True previous current
   \<and> (load_previous m rt env = None \<and> res_stored (beat m rt env) = Some b \<and> hb_status b \<noteq> DOWN \<longrightarrow>
        res_dispatched (beat m rt env) \<noteq> None \<and> res_effects (beat m rt env) = [])"
proof -
  have a: "\<not> isFirstBeat \<or> hb_status bean = DOWN \<longrightarrow>
      sendNotification isFirstBeat m nl bean =
        PreCommand (hb_status bean) #
        map (\<lambda>n. Send n (notification_msg m bean) (heartbeatJSON bean)) nl"
    by (simp add: sendNotification_def)
  have b: "isFirstBeat \<and> hb_status bean \<noteq> DOWN \<longrightarrow> sendNotification isFirstBeat m nl bean = []"
    by (simp add: sendNotification_def)
  have c: "isImportantForNotification True previous current"
    by (simp add: isImportantForNotification_def)
  have d: "load_previous m rt env = None \<and> res_stored (beat m rt env) = Some b \<and> hb_status b \<noteq> DOWN \<longrightarrow>
        res_dispatched (beat m rt env) \<noteq> None \<and> res_effects (beat m rt env) = []"
  proof (intro impI, elim conjE)
    assume lp: "load_previous m rt env = None"
      and st: "res_stored (beat m rt env) = Some b" and nd: "hb_status b \<noteq> DOWN"
    show "res_dispatched (beat m rt env) \<noteq> None \<and> res_effects (beat m rt env) = []"
    proof (cases "try_block (patch_timeout m) (load_previous m rt env) (beat_interval m env) env
       (new_bean m (load_previous m rt env) env)")
      case (Normal x)
      have "beat m rt env = finish_tick (patch_timeout m) env None x 0"
        using beat_Normal[OF Normal] lp by simp
      then show ?thesis using st nd
        by (auto simp: finish_tick_first sendNotification_def)
    next
      case (Thrown e x)
      have "beat m rt env = finish_tick (patch_timeout m) env None
          (fst (catch_block (patch_timeout m) env (retries rt) e x))
          (snd (catch_block (patch_timeout m) env (retries rt) e x))"
        using beat_Thrown[OF Thrown] lp by simp
      then show ?thesis using st nd
        by (auto simp: finish_tick_first sendNotification_def)
    next
      case (EarlyReturn t)
      then show ?thesis using st by (simp add: beat_EarlyReturn early_return_def)
    qed
  qed
  from a b c d show ?thesis by blast
qed

theorem first_beat_notification_gate_witness:
  "sendNotification False example_monitor [example_provider] (example_beat UP) =
     [PreCommand UP,
      Send example_provider (notification_msg example_monitor (example_beat UP))
        (heartbeatJSON (example_beat UP))]
   \<and> sendNotification True example_monitor [example_provider] (example_beat UP) = []
   \<and> isImportantForNotification True None UP"
  using first_beat_notification_gate[of False "example_beat UP" example_monitor "[example_provider]"]
    first_beat_notification_gate[of True "example_beat UP" example_monitor "[example_provider]" None UP]
  by (simp add: example_beat_def)

section \<open>The timeout patch\<close>

text \<open>
  Claim C2, evaluated on the code.  For a monitor with interval 60 whose
  timeout is null or 0, the patch at the start of the tick stores 48000 in
  \<open>timeout\<close>, a field every other use reads as seconds; 0.8 times the interval
  is 48.
\<close>

theorem patch_timeout_at_interval_60:
  "mon_timeout (patch_timeout (example_monitor\<lparr>mon_timeout := None\<rparr>)) = Some 48000
   \<and> mon_timeout (patch_timeout (example_monitor\<lparr>mon_timeout := Some 0\<rparr>)) = Some 48000
   \<and> (48000 :: real) \<noteq> 0.8 * 60"
  by (simp add: patch_timeout_def example_monitor_def timeout_unset_def timeout_nonpositive_def)


section \<open>The resend counter\<close>

text \<open>
  Claim C5, as the code has it.  For a monitor with a positive resend
  interval: in a run that starts from heartbeats whose \<open>downCount\<close> is below
  the resend interval (the closure's previous beat and the rows read from the
  repository; a new monitor with no heartbeat is such a start), the
  \<open>downCount\<close> of the bean handed to the notifier, its value just before the
  reset, never exceeds the resend interval, and the one stored stays below it.
  From any start at all: \<open>downCount\<close> is 0 on every important beat; on a DOWN
  beat that is not important the count carried from the previous heartbeat is
  incremented, and when it has reached the resend interval the pre-command
  and every provider are called with the bean carrying that count, and 0 is
  stored; when it has not, nothing is sent and the incremented count is
  stored.
\<close>

theorem downCount_invariant:
  "(0 < mon_resendInterval m \<and> downCount_below m (previousBeat rt0) \<and> rows_below m rt0 envs \<longrightarrow>
      (\<forall>r \<in> set (run m rt0 envs). tick_downCount_ok m r))
   \<and> (res_stored (beat m rt env) = Some b \<and> hb_important b \<longrightarrow> hb_downCount b = 0)
   \<and> (0 < mon_resendInterval m \<and> res_stored (beat m rt env) = Some b
        \<and> \<not> hb_important b \<and> hb_status b = DOWN
        \<and> mon_resendInterval m \<le> int (carried_downCount m rt env + 1) \<longrightarrow>
      res_dispatched (beat m rt env) = Some (b\<lparr>hb_downCount := carried_downCount m rt env + 1\<rparr>)
      \<and> res_effects (beat m rt env)
          = resend_effects m env (b\<lparr>hb_downCount := carried_downCount m rt env + 1\<rparr>)
      \<and> hb_downCount b = 0)
   \<and> (0 < mon_resendInterval m \<and> res_stored (beat m rt env) = Some b
        \<and> \<not> hb_important b \<and> hb_status b = DOWN
        \<and> int (carried_downCount m rt env + 1) < mon_resendInterval m \<longrightarrow>
      res_dispatched (beat m rt env) = None \<and> res_effects (beat m rt env) = []
      \<and> hb_downCount b = carried_downCount m rt env + 1)"
proof -
  have inv: "0 < mon_resendInterval m \<Longrightarrow> downCount_below m (previousBeat rt0) \<Longrightarrow> rows_below m rt0 envs \<Longrightarrow>
      \<forall>r \<in> set (run m rt0 envs). tick_downCount_ok m r"
  proof (induction envs arbitrary: m rt0)
    case Nil
    then show ?case by simp
  next
    case (Cons env envs)
    let ?r = "beat m rt0 env"
    have head: "previousBeat rt0 = None \<or> mon_type m = ''push'' \<Longrightarrow> downCount_below m (env_latest env)"
      using Cons.prems(3) by (rule rows_below_head)
    note step = beat_downCount[OF Cons.prems(1) Cons.prems(2) head]
    have rows: "rows_below m (res_runtime ?r) envs"
      using Cons.prems(3) step(3) by (rule rows_below_step)
    have "\<forall>r \<in> set (run (patch_timeout m) (res_runtime ?r) envs). tick_downCount_ok (patch_timeout m) r"
      using Cons.prems(1) step(2) rows by (intro Cons.IH) simp_all
    then show ?case using step(1) by (simp add: Let_def)
  qed
  have imp: "res_stored (beat m rt env) = Some b \<and> hb_important b \<longrightarrow> hb_downCount b = 0"
  proof (intro impI, elim conjE)
    assume st: "res_stored (beat m rt env) = Some b" and i: "hb_important b"
    from beat_stored_finish[OF st] obtain b1 rtr where
      f: "beat m rt env = finish_tick (patch_timeout m) env (load_previous m rt env) b1 rtr" by blast
    show "hb_downCount b = 0" using st i unfolding f by (rule finish_tick_important)
  qed
  have re: "0 < mon_resendInterval m \<and> res_stored (beat m rt env) = Some b
        \<and> \<not> hb_important b \<and> hb_status b = DOWN
        \<and> mon_resendInterval m \<le> int (carried_downCount m rt env + 1) \<longrightarrow>
      res_dispatched (beat m rt env) = Some (b\<lparr>hb_downCount := carried_downCount m rt env + 1\<rparr>)
      \<and> res_effects (beat m rt env)
          = resend_effects m env (b\<lparr>hb_downCount := carried_downCount m rt env + 1\<rparr>)
      \<and> hb_downCount b = 0"
  proof (intro impI, elim conjE)
    assume pos: "0 < mon_resendInterval m" and st: "res_stored (beat m rt env) = Some b"
      and ni: "\<not> hb_important b" and dn: "hb_status b = DOWN"
      and reach: "mon_resendInterval m \<le> int (carried_downCount m rt env + 1)"
    from beat_stored_finish[OF st] obtain b1 rtr where
      f: "beat m rt env = finish_tick (patch_timeout m) env (load_previous m rt env) b1 rtr"
      and c: "hb_downCount b1 = carried_downCount m rt env" by blast
    have pos': "0 < mon_resendInterval (patch_timeout m)" using pos by simp
    have reach': "mon_resendInterval (patch_timeout m) \<le> int (hb_downCount b1 + 1)"
      using reach c by simp
    from finish_tick_resend(1)[OF st[unfolded f] ni dn pos' reach']
    show "res_dispatched (beat m rt env) = Some (b\<lparr>hb_downCount := carried_downCount m rt env + 1\<rparr>)
      \<and> res_effects (beat m rt env)
          = resend_effects m env (b\<lparr>hb_downCount := carried_downCount m rt env + 1\<rparr>)
      \<and> hb_downCount b = 0"
      unfolding f c by (simp add: resend_effects_def)
  qed
  have cnt: "0 < mon_resendInterval m \<and> res_stored (beat m rt env) = Some b
        \<and> \<not> hb_important b \<and> hb_status b = DOWN
        \<and> int (carried_downCount m rt env + 1) < mon_resendInterval m \<longrightarrow>
      res_dispatched (beat m rt env) = None \<and> res_effects (beat m rt env) = []
      \<and> hb_downCount b = carried_downCount m rt env + 1"
  proof (intro impI, elim conjE)
    assume pos: "0 < mon_resendInterval m" and st: "res_stored (beat m rt env) = Some b"
      and ni: "\<not> hb_important b" and dn: "hb_status b = DOWN"
      and below: "int (carried_downCount m rt env + 1) < mon_resendInterval m"
    from beat_stored_finish[OF st] obtain b1 rtr where
      f: "beat m rt env = finish_tick (patch_timeout m) env (load_previous m rt env) b1 rtr"
      and c: "hb_downCount b1 = carried_downCount m rt env" by blast
    have pos': "0 < mon_resendInterval (patch_timeout m)" using pos by simp
    have below': "int (hb_downCount b1 + 1) < mon_resendInterval (patch_timeout m)"
      using below c by simp
    from finish_tick_resend(2)[OF st[unfolded f] ni dn pos' below']
    show "res_dispatched (beat m rt env) = None \<and> res_effects (beat m rt env) = []
      \<and> hb_downCount b = carried_downCount m rt env + 1"
      unfolding f c by simp
  qed
  from inv imp re cnt show ?thesis by blast
qed

text \<open>
  The resend scenario of the specification: resend interval 3, no retries,
  five failing probes from a new monitor.  The notifier is called on the first
  beat and on the fourth, where \<open>downCount\<close> has reached 3; the fourth tick is
  also given on its own, with the effects of the resend.
\<close>

theorem downCount_invariant_witness:
  "list_all (tick_downCount_ok resend_monitor) (run resend_monitor initial_runtime five_failures)
   \<and> map (map_option hb_downCount \<circ> res_stored) (run resend_monitor initial_runtime five_failures)
       = [Some 0, Some 1, Some 2, Some 0, Some 1]
   \<and> map (map_option hb_downCount \<circ> res_dispatched) (run resend_monitor initial_runtime five_failures)
       = [Some 0, None, None, Some 3, None]
   \<and> res_stored (beat resend_monitor down_twice fourth_tick) = Some (down_beat 180000 0)
   \<and> res_dispatched (beat resend_monitor down_twice fourth_tick) = Some (down_beat 180000 3)
   \<and> res_effects (beat resend_monitor down_twice fourth_tick)
       = [PreCommand DOWN,
          Send example_provider (notification_msg resend_monitor (down_beat 180000 3))
            (down_beat 180000 3)]"
proof -
  have h1: "0 < mon_resendInterval resend_monitor" by code_simp
  have h2: "downCount_below resend_monitor (previousBeat initial_runtime)" by code_simp
  have h3: "rows_below resend_monitor initial_runtime five_failures"
    by code_simp
  have st: "res_stored (beat resend_monitor down_twice fourth_tick) = Some (down_beat 180000 0)"
    by code_simp
  have b: "\<not> hb_important (down_beat 180000 0)" "hb_status (down_beat 180000 0) = DOWN"
    by (simp_all add: down_beat_def)
  have c: "carried_downCount resend_monitor down_twice fourth_tick = 2" by code_simp
  have reach: "mon_resendInterval resend_monitor \<le> int (carried_downCount resend_monitor down_twice fourth_tick + 1)"
    by code_simp
  have d: "(down_beat 180000 0)\<lparr>hb_downCount := 2 + 1\<rparr> = down_beat 180000 3"
    by (simp add: down_beat_def)
  have e: "resend_effects resend_monitor fourth_tick (down_beat 180000 3)
       = [PreCommand DOWN,
          Send example_provider (notification_msg resend_monitor (down_beat 180000 3))
            (down_beat 180000 3)]"
    by (simp add: resend_effects_def fourth_tick_def example_env_def heartbeatJSON_def down_beat_def)
  note t = downCount_invariant[of resend_monitor initial_runtime "[]" down_twice fourth_tick
      "down_beat 180000 0"]
  have ok: "list_all (tick_downCount_ok resend_monitor) (run resend_monitor initial_runtime five_failures)"
    using downCount_invariant[of resend_monitor initial_runtime five_failures down_twice
        fourth_tick "down_beat 180000 0"] h1 h2 h3
    by (simp only: list_all_iff) blast
  have re: "res_dispatched (beat resend_monitor down_twice fourth_tick) = Some (down_beat 180000 3)
      \<and> res_effects (beat resend_monitor down_twice fourth_tick)
          = resend_effects resend_monitor fourth_tick (down_beat 180000 3)"
    using t h1 st b reach unfolding c d by blast
  have ex1: "map (map_option hb_downCount \<circ> res_stored) (run resend_monitor initial_runtime five_failures)
       = [Some 0, Some 1, Some 2, Some 0, Some 1]"
    by code_simp
  have ex2: "map (map_option hb_downCount \<circ> res_dispatched) (run resend_monitor initial_runtime five_failures)
       = [Some 0, None, None, Some 3, None]"
    by code_simp
  from ok ex1 ex2 st re show ?thesis unfolding e by blast
qed

text \<open>
  The claim as stated, for every sequence of beats, fails when the run starts
  from a stale row: with resend interval 3 and a latest heartbeat that is DOWN
  with \<open>downCount\<close> 9, the next failing tick hands the notifier a bean with
  \<open>downCount\<close> 10, and stores 0.
\<close>

theorem downCount_stale_row_counterexample:
  "0 < mon_resendInterval resend_monitor
   \<and> map_option hb_downCount (res_dispatched (beat resend_monitor initial_runtime stale_env)) = Some 10
   \<and> \<not> (10 \<le> mon_resendInterval resend_monitor)
   \<and> map_option hb_downCount (res_stored (beat resend_monitor initial_runtime stale_env)) = Some 0"
  by code_simp


section \<open>Push monitors\<close>

text \<open>
  Claim C7.  In a tick of a push monitor outside maintenance, the \<open>try\<close> block
  raises "No heartbeat in the time window" exactly when the window is missed:
  there is no previous heartbeat, or its status is not the good one, or more
  than beatInterval * 1000 + 1000 ms have passed since.  Otherwise the tick
  returns early: \<open>retries\<close> is 0, nothing is stored or sent, and the next tick
  is set for the time left until the deadline (none once it has passed) plus
  the buffer of 1000 ms.  When the error is raised it falls into the \<open>catch\<close>
  block and a beat with that message is stored.
\<close>

theorem push_window_check:
  assumes push: "mon_type m = ''push''" and nomaint: "\<not> env_underMaintenance env"
  shows "raises (try_block (patch_timeout m) (load_previous m rt env) (beat_interval m env) env
                  (new_bean m (load_previous m rt env) env)) ''No heartbeat in the time window''
           = push_window_missed m env
       \<and> (\<not> push_window_missed m env \<longrightarrow>
            beat m rt env =
              \<lparr>res_monitor = patch_timeout m,
               res_runtime = \<lparr>previousBeat = env_latest env, retries = 0\<rparr>,
               res_stored = None, res_dispatched = None, res_effects = [],
               res_next = Some (max 0 (beat_interval m env * 1000 - ms_since_latest env) + 1000)\<rparr>)
       \<and> (push_window_missed m env \<longrightarrow>
            (\<exists>b. res_stored (beat m rt env) = Some b \<and> hb_msg b = ''No heartbeat in the time window''))"
proof -
  let ?m = "patch_timeout m"
  let ?prev = "load_previous m rt env"
  let ?bean = "new_bean m ?prev env"
  let ?tb = "try_block ?m ?prev (beat_interval m env) env ?bean"
  have lp: "?prev = env_latest env" using push by (rule load_previous_push)
  have tb: "?tb = push_branch ?m (env_latest env) (env_now env) (beat_interval m env) ?bean"
    using push nomaint lp by (simp add: try_block_push)
  have missed: "push_window_missed m env \<Longrightarrow> ?tb = Thrown (Error ''No heartbeat in the time window'') ?bean"
    unfolding tb
    by (rule push_branch_missed) (simp add: push_window_missed_def cong: option.case_cong)
  have inside: "\<not> push_window_missed m env \<Longrightarrow>
      ?tb = EarlyReturn (max 0 (beat_interval m env * 1000 - ms_since_latest env) + 1000)"
  proof -
    assume "\<not> push_window_missed m env"
    then obtain pb where pb: "env_latest env = Some pb" "hb_status pb = good_status m"
        "\<not> env_now env - hb_time pb > beat_interval m env * 1000 + 1000"
      by (auto simp: push_window_missed_def split: option.splits)
    have ms: "ms_since_latest env = env_now env - hb_time pb"
      using pb by (simp add: ms_since_latest_def)
    show ?thesis
      unfolding tb ms using pb by (intro push_branch_inside) simp_all
  qed
  have a: "raises ?tb ''No heartbeat in the time window'' = push_window_missed m env"
    using missed inside by (cases "push_window_missed m env") (simp_all add: raises_def)
  have b: "\<not> push_window_missed m env \<longrightarrow>
            beat m rt env =
              \<lparr>res_monitor = patch_timeout m,
               res_runtime = \<lparr>previousBeat = env_latest env, retries = 0\<rparr>,
               res_stored = None, res_dispatched = None, res_effects = [],
               res_next = Some (max 0 (beat_interval m env * 1000 - ms_since_latest env) + 1000)\<rparr>"
  proof
    assume "\<not> push_window_missed m env"
    from beat_EarlyReturn[OF inside[OF this]] show "beat m rt env = \<lparr>res_monitor = patch_timeout m,
               res_runtime = \<lparr>previousBeat = env_latest env, retries = 0\<rparr>,
               res_stored = None, res_dispatched = None, res_effects = [],
               res_next = Some (max 0 (beat_interval m env * 1000 - ms_since_latest env) + 1000)\<rparr>"
      using lp by (simp add: early_return_def)
  qed
  have c: "push_window_missed m env \<longrightarrow>
            (\<exists>b. res_stored (beat m rt env) = Some b \<and> hb_msg b = ''No heartbeat in the time window'')"
  proof
    assume "push_window_missed m env"
    from beat_Thrown[OF missed[OF this]]
    show "\<exists>b. res_stored (beat m rt env) = Some b \<and> hb_msg b = ''No heartbeat in the time window''"
      by (simp add: res_stored_finish_tick)
  qed
  from a b c show ?thesis by blast
qed


theorem push_window_check_witness:
  "res_stored (beat push_monitor \<lparr>previousBeat = None, retries = 2\<rparr> (push_env 30000)) = None
   \<and> res_next (beat push_monitor \<lparr>previousBeat = None, retries = 2\<rparr> (push_env 30000)) = Some 31000
   \<and> retries (res_runtime (beat push_monitor \<lparr>previousBeat = None, retries = 2\<rparr> (push_env 30000))) = 0
   \<and> map_option hb_msg (res_stored (beat push_monitor \<lparr>previousBeat = None, retries = 2\<rparr> (push_env 62000)))
       = Some ''No heartbeat in the time window''"
proof -
  let ?rt = "\<lparr>previousBeat = None, retries = 2\<rparr>"
  have h1: "mon_type push_monitor = ''push''" by code_simp
  have h2: "\<not> env_underMaintenance (push_env 30000)" "\<not> env_underMaintenance (push_env 62000)"
    by code_simp+
  have h3: "\<not> push_window_missed push_monitor (push_env 30000)" by code_simp
  have h4: "push_window_missed push_monitor (push_env 62000)" by code_simp
  have t: "max 0 (beat_interval push_monitor (push_env 30000) * 1000 - ms_since_latest (push_env 30000)) + 1000
      = 31000" by code_simp
  from push_window_check[OF h1 h2(1), of ?rt] h3
  have "beat push_monitor ?rt (push_env 30000) =
      \<lparr>res_monitor = patch_timeout push_monitor,
       res_runtime = \<lparr>previousBeat = env_latest (push_env 30000), retries = 0\<rparr>,
       res_stored = None, res_dispatched = None, res_effects = [],
       res_next = Some 31000\<rparr>"
    unfolding t by blast
  moreover from push_window_check[OF h1 h2(2), of ?rt] h4
  have "\<exists>b. res_stored (beat push_monitor ?rt (push_env 62000)) = Some b
      \<and> hb_msg b = ''No heartbeat in the time window''" by blast
  ultimately show ?thesis by auto
qed

section \<open>Upside-down mode\<close>

text \<open>
  Claim C8, as the code has it.  For an upside-down monitor (not a group, not
  a push monitor, outside maintenance) whose probe succeeds, the flip turns UP
  into DOWN and throws "Flip UP to DOWN".  The beat stored has exactly that
  message: the message of the probe is overwritten.  Its status is DOWN when
  no retry is left and PENDING otherwise, \<open>retries\<close> is incremented in the
  latter case, and importance is decided on the status stored, all as for a
  failed probe.
\<close>

theorem upside_down_inversion:
  assumes "mon_upsideDown m" "mon_type m \<noteq> ''group''" "mon_type m \<noteq> ''push''"
    and "\<not> env_underMaintenance env" and "probe_succeeds (env_probe env)"
  shows "\<exists>b. res_stored (beat m rt env) = Some b
     \<and> hb_msg b = ''Flip UP to DOWN''
     \<and> hb_status b = (if 0 < mon_maxretries m \<and> retries rt < mon_maxretries m then PENDING else DOWN)
     \<and> hb_important b = isImportantBeat (load_previous m rt env = None)
          (map_option hb_status (load_previous m rt env)) (hb_status b)
     \<and> retries (res_runtime (beat m rt env)) =
          (if 0 < mon_maxretries m \<and> retries rt < mon_maxretries m then retries rt + 1 else retries rt)"
proof -
  let ?prev = "load_previous m rt env"
  let ?bean = "new_bean m ?prev env"
  from assms obtain msg ping where p: "env_probe env = Finished (Some UP) msg ping"
    by (auto simp: probe_succeeds_def split: probe_outcome.splits)
  have tb: "try_block (patch_timeout m) ?prev (beat_interval m env) env ?bean
      = Thrown (Error ''Flip UP to DOWN'') (?bean\<lparr>hb_status := DOWN, hb_msg := msg, hb_ping := ping\<rparr>)"
    using assms p by (intro try_block_flip) simp_all
  show ?thesis
    unfolding beat_Thrown[OF tb]
    by (simp add: res_stored_finish_tick finish_tick_fields catch_block_status)
qed

theorem upside_down_inversion_witness:
  "map_option hb_msg (res_stored (beat inverted_monitor initial_runtime http_200)) = Some ''Flip UP to DOWN''
   \<and> map_option hb_status (res_stored (beat inverted_monitor initial_runtime http_200)) = Some DOWN
   \<and> retries (res_runtime (beat inverted_monitor initial_runtime http_200)) = 0"
proof -
  have h: "mon_upsideDown inverted_monitor" "mon_type inverted_monitor \<noteq> ''group''"
    "mon_type inverted_monitor \<noteq> ''push''" "\<not> env_underMaintenance http_200"
    "probe_succeeds (env_probe http_200)"
    by code_simp+
  have v: "mon_maxretries inverted_monitor = 0" "retries initial_runtime = 0" by code_simp+
  from upside_down_inversion[OF h, of initial_runtime] show ?thesis
    unfolding v by auto
qed

text \<open>
  The claim as stated fails on the message: with an accepted HTTP 200 whose
  message is "200 - OK", the beat stored is DOWN with the message
  "Flip UP to DOWN", in which the message of the probe does not occur.  With
  two retries allowed, the first such beat is PENDING, not DOWN.
\<close>

theorem upside_down_msg_counterexample:
  "map_option hb_status (res_stored (beat inverted_monitor initial_runtime http_200)) = Some DOWN
   \<and> map_option hb_msg (res_stored (beat inverted_monitor initial_runtime http_200)) = Some ''Flip UP to DOWN''
   \<and> \<not> sublist ''200 - OK'' ''Flip UP to DOWN''
   \<and> map_option hb_status (res_stored
        (beat (inverted_monitor\<lparr>mon_maxretries := 2\<rparr>) initial_runtime http_200)) = Some PENDING"
  by code_simp


section \<open>Group monitors\<close>




section \<open>Certificate expiry notifications\<close>

text \<open>
  Claim C1, as the code has it.  Expiry notification is enabled and TLS errors
  are not ignored; the thresholds are 7, 14, 21; the history holds no
  certificate row of the monitor; at least one provider delivers; the leaf of
  the captured chain has 10 days left and is not a known root, and no other
  certificate of the chain is within 7 days.  The first capture calls every
  provider once, for threshold 14, and inserts the one row for 14: threshold 7
  is not met, and threshold 21, which comes after 14 in the loop, finds the row
  of 14 (its days are at most 21) and sends nothing.  A second capture of the
  same chain sends nothing and leaves the history as it is.
\<close>

theorem cert_expiry_dedup:
  assumes enabled: "mon_expiryNotification m" "\<not> mon_ignoreTls m"
    and leaf: "cert_daysRemaining leaf = 10" "cert_fingerprint256 leaf \<notin> set roots"
    and rest: "\<forall>c \<in> set issuers. 7 < cert_daysRemaining c"
    and providers: "list_ex dl nl"
    and fresh: "no_cert_rows m (store_history st)"
    and setting: "setting = None \<or> setting = Some [7, 14, 21]"
    and capture: "tlsInfo = \<lparr>tls_valid = v, tls_certInfo = leaf # issuers\<rparr>"
    and first: "first = handleTlsInfo m dl roots setting nl tlsInfo st"
    and second: "second = handleTlsInfo m dl roots setting nl tlsInfo (fst first)"
  shows "snd first = map (\<lambda>n. (14, n, cert_text m (cert_certType leaf) (cert_subjectCN leaf) 10)) nl
       \<and> store_history (fst first) = store_history st @ [cert_row m 14]
       \<and> snd second = []
       \<and> store_history (fst second) = store_history (fst first)"
proof -
  let ?st1 = "updateTlsInfo m tlsInfo st"
  have h1: "store_history ?st1 = store_history st"
    using fresh by (rule updateTlsInfo_history_fresh)
  have c1: "checkCertExpiryNotifications m dl roots setting nl tlsInfo (store_history st)
     = (store_history st @ [cert_row m 14],
        map (\<lambda>n. (14, n, cert_text m (cert_certType leaf) (cert_subjectCN leaf) 10)) nl)"
    unfolding capture using leaf rest providers fresh setting by (rule check_first)
  have f: "first = (?st1\<lparr>store_history := store_history st @ [cert_row m 14]\<rparr>,
       map (\<lambda>n. (14, n, cert_text m (cert_certType leaf) (cert_subjectCN leaf) 10)) nl)"
    unfolding first handleTlsInfo_enabled[OF enabled] h1 c1 by simp
  let ?st2 = "updateTlsInfo m tlsInfo (fst first)"
  have stored: "store_tls (fst first) (mon_id m) = Some tlsInfo"
    unfolding f by (simp add: updateTlsInfo_stored)
  have h2: "store_history ?st2 = store_history st @ [cert_row m 14]"
    using updateTlsInfo_same[OF stored] f by simp
  have c2: "checkCertExpiryNotifications m dl roots setting nl tlsInfo (store_history st @ [cert_row m 14])
     = (store_history st @ [cert_row m 14], [])"
    unfolding capture using leaf(1) rest _ setting by (rule check_repeat) simp
  have s: "second = (?st2\<lparr>store_history := store_history st @ [cert_row m 14]\<rparr>, [])"
    unfolding second handleTlsInfo_enabled[OF enabled] h2 c2 by simp
  show ?thesis
    unfolding s unfolding f by simp
qed

theorem cert_expiry_dedup_witness:
  "snd (handleTlsInfo example_monitor always_delivers [] None [example_provider] example_tls empty_store)
     = [(14, example_provider,
         ''[web][https://example.com] server certificate example.com will be expired in 10 days'')]
   \<and> store_history (fst (handleTlsInfo example_monitor always_delivers [] None [example_provider]
        example_tls empty_store)) = [cert_row example_monitor 14]
   \<and> snd (handleTlsInfo example_monitor always_delivers [] None [example_provider] example_tls
        (fst (handleTlsInfo example_monitor always_delivers [] None [example_provider] example_tls
           empty_store))) = []"
proof -
  have h: "mon_expiryNotification example_monitor" "\<not> mon_ignoreTls example_monitor"
    "cert_daysRemaining leaf_cert = 10" "cert_fingerprint256 leaf_cert \<notin> set []"
    "\<forall>c \<in> set []. 7 < cert_daysRemaining c"
    "list_ex always_delivers [example_provider]"
    "no_cert_rows example_monitor (store_history empty_store)"
    "None = None \<or> None = Some [7, 14, 21]"
    "example_tls = \<lparr>tls_valid = True, tls_certInfo = leaf_cert # []\<rparr>"
    by (simp_all add: example_monitor_def leaf_cert_def always_delivers_def no_cert_rows_def
        empty_store_def example_tls_def)
  have t: "cert_text example_monitor (cert_certType leaf_cert) (cert_subjectCN leaf_cert) 10
     = ''[web][https://example.com] server certificate example.com will be expired in 10 days''"
    by code_simp
  have e: "store_history empty_store = []" by (simp add: empty_store_def)
  from cert_expiry_dedup[OF h refl refl] show ?thesis
    unfolding t e by simp
qed

text \<open>
  The claim as stated expects a notification and a row for threshold 21 as
  well.  On the chain of one leaf with 10 days left, the only sends are for
  threshold 14 and the only row is the one of 14.
\<close>

theorem cert_expiry_threshold_21_counterexample:
  "filter (\<lambda>e. fst e = 21)
     (snd (handleTlsInfo example_monitor always_delivers [] (Some [7, 14, 21]) [example_provider]
        example_tls empty_store)) = []
   \<and> map fst (snd (handleTlsInfo example_monitor always_delivers [] (Some [7, 14, 21]) [example_provider]
        example_tls empty_store)) = [14]
   \<and> map row_days (store_history (fst (handleTlsInfo example_monitor always_delivers []
        (Some [7, 14, 21]) [example_provider] example_tls empty_store))) = [14]"
  by code_simp


section \<open>The uptime ratio\<close>

text \<open>
  What \<open>calcUptime\<close> computes.  When the total duration of the window is
  positive, the uptime is the quotient of the uptime duration by the total
  duration, raised to 0 if it is negative; the uptime duration sums the
  trimmed durations of exactly the heartbeats whose status is UP or
  MAINTENANCE.  Otherwise the uptime is 1 if the earliest heartbeat of the
  monitor is UP, and 0 if it is not or there is none.  The result is never
  negative, and it is at most 1 when no heartbeat of the window has a negative
  duration.
\<close>

lemma calcUptime_ratio:
  "(0 < js_number (total_duration (window_start now d) mid table) \<longrightarrow>
      calcUptime now d mid table =
        max 0 (js_number (uptime_duration (window_start now d) mid table)
               / js_number (total_duration (window_start now d) mid table)))
   \<and> (\<not> 0 < js_number (total_duration (window_start now d) mid table) \<longrightarrow>
      calcUptime now d mid table = (if first_status mid table = Some UP then 1 else 0))
   \<and> (\<not> 0 < js_number (total_duration (window_start now d) mid table)
        \<and> filter (\<lambda>x. hb_monitor_id x = mid) table = [h] \<longrightarrow>
      calcUptime now d mid table = (if hb_status h = UP then 1 else 0))
   \<and> (\<not> 0 < js_number (total_duration (window_start now d) mid table)
        \<and> filter (\<lambda>x. hb_monitor_id x = mid) table = [] \<longrightarrow>
      calcUptime now d mid table = 0)
   \<and> uptime_duration (window_start now d) mid table =
       sql_sum (map (trimmed (window_start now d))
         (filter counts_as_up (in_window (window_start now d) mid table)))
   \<and> 0 \<le> calcUptime now d mid table
   \<and> (durations_nonneg (in_window (window_start now d) mid table) \<longrightarrow>
        calcUptime now d mid table \<le> 1
        \<and> (0 < js_number (total_duration (window_start now d) mid table) \<longrightarrow>
             calcUptime now d mid table =
               js_number (uptime_duration (window_start now d) mid table)
               / js_number (total_duration (window_start now d) mid table)))"
proof -
  let ?s = "window_start now d"
  let ?t = "js_number (total_duration ?s mid table)"
  let ?u = "js_number (uptime_duration ?s mid table)"
  have a: "0 < ?t \<longrightarrow> calcUptime now d mid table = max 0 (?u / ?t)"
    by (simp add: calcUptime_def Let_def max_def)
  have b: "\<not> 0 < ?t \<longrightarrow> calcUptime now d mid table = (if first_status mid table = Some UP then 1 else 0)"
    by (simp add: calcUptime_def Let_def)
  have b1: "\<not> 0 < ?t \<and> filter (\<lambda>x. hb_monitor_id x = mid) table = [h] \<longrightarrow>
      calcUptime now d mid table = (if hb_status h = UP then 1 else 0)"
    using b by (simp add: first_status_def)
  have b0: "\<not> 0 < ?t \<and> filter (\<lambda>x. hb_monitor_id x = mid) table = [] \<longrightarrow>
      calcUptime now d mid table = 0"
    using b by (simp add: first_status_def)
  have c: "uptime_duration ?s mid table =
       sql_sum (map (trimmed ?s) (filter counts_as_up (in_window ?s mid table)))"
  proof -
    have "(\<lambda>h. status_code (hb_status h) = 1 \<or> status_code (hb_status h) = 3) = counts_as_up"
      by (rule ext) (simp only: counts_as_up_def status_code_up)
    then show ?thesis by (simp only: uptime_duration_def)
  qed
  have d: "0 \<le> calcUptime now d mid table"
    by (simp add: calcUptime_def Let_def)
  have e: "durations_nonneg (in_window ?s mid table) \<longrightarrow>
        calcUptime now d mid table \<le> 1 \<and> (0 < ?t \<longrightarrow> calcUptime now d mid table = ?u / ?t)"
  proof
    assume nn: "durations_nonneg (in_window ?s mid table)"
    note le = uptime_le_total[OF nn]
    show "calcUptime now d mid table \<le> 1 \<and> (0 < ?t \<longrightarrow> calcUptime now d mid table = ?u / ?t)"
    proof (cases "0 < ?t")
      case True
      have q: "0 \<le> ?u / ?t" "?u / ?t \<le> 1" using True le by simp_all
      then show ?thesis using True a by (simp add: max_def)
    next
      case False
      then show ?thesis using b by simp
    qed
  qed
  from a b b1 b0 c d e show ?thesis by blast
qed

text \<open>
  Three windows of 24 hours.  Heartbeats well inside the window count with
  their whole duration.  A heartbeat 10 seconds after the start of the window
  with a duration of 60 seconds counts for 10 seconds.  A heartbeat stamped at
  the very second the window starts is inside the window and counts for 0
  seconds.
\<close>

lemma calcUptime_examples:
  "calcUptime 200000 24 1 [beat_at 0 UP 0, beat_at 60000 DOWN 60, beat_at 120000 UP 60] = 1 / 2
   \<and> calcUptime 86450000 24 1 [beat_at 60000 UP 60, beat_at 120000 DOWN 60] = 1 / 7
   \<and> calcUptime 86450000 24 1 [beat_at 50000 UP 30, beat_at 110000 DOWN 60] = 0
   \<and> in_window (window_start 86450000 24) 1 [beat_at 50000 UP 30] = [beat_at 50000 UP 30]
   \<and> calcUptime 200000 24 1 [beat_at 0 UP 0] = 1
   \<and> calcUptime 200000 24 1 [beat_at 0 DOWN 0] = 0"
  by (simp add: calcUptime_def window_start_def total_duration_def uptime_duration_def in_window_def
      trimmed_def beat_at_def first_status_def sql_sum_def js_number_def)

text \<open>
  Claim C9, evaluated on the code.  The clock has stepped back between two
  heartbeats of the window: an UP heartbeat of duration 10 is followed by a
  DOWN heartbeat stamped 5 seconds earlier, of duration -5.  The total is 5,
  the uptime duration 10, and \<open>calcUptime\<close> returns 2: the quotient is raised
  to 0 when it is negative and is not lowered to 1 when it exceeds 1.  And a
  monitor whose two heartbeats, the earlier UP and the latest DOWN, both lie
  before the window gets uptime 1: the status query of the fallback has no
  \<open>ORDER BY time DESC\<close>, unlike the query that loads the latest heartbeat at
  the start of a tick, and yields the earliest row.
\<close>

theorem calcUptime_at_failing_inputs:
  "calcUptime 200000 24 1 [beat_at 100000 UP 10, beat_at 95000 DOWN (- 5)] = 2
   \<and> calcUptime 200000000 24 1 [beat_at 0 UP 0, beat_at 60000 DOWN 60] = 1
   \<and> hb_status (beat_at 60000 DOWN 60) = DOWN
   \<and> hb_time (beat_at 0 UP 0) < hb_time (beat_at 60000 DOWN 60)"
  by (simp add: calcUptime_def window_start_def total_duration_def uptime_duration_def in_window_def
      trimmed_def beat_at_def first_status_def sql_sum_def js_number_def)

end
